theory Spec2Isabelle
  imports Main "HOL-Library.AList"
begin

section \<open>JavaScript strings\<close>

text \<open>
  Strings inside the bot are modelled as HOL strings. The body of an inbound WhatsApp
  message is modelled as the list of its UTF-16 code units (natural numbers), since the
  sanitizer is the place where arbitrary text enters the program.
  \<^verbatim>\<open>String.prototype.toLowerCase\<close> is modelled on the ASCII letters; no other character
  lowercases to one of the ASCII letters of the keywords the code compares with
  (\<^verbatim>\<open>exit\<close>, \<^verbatim>\<open>valid\<close>, \<^verbatim>\<open>yes\<close>, \<^verbatim>\<open>no\<close>).
\<close>

definition is_ws :: "char \<Rightarrow> bool" where
  "is_ws c = (of_char c \<in> {9, 10, 11, 12, 13, 32, 160 :: nat})"

definition is_digit :: "char \<Rightarrow> bool" where
  "is_digit c = (48 \<le> (of_char c :: nat) \<and> (of_char c :: nat) \<le> 57)"

definition is_word_char :: "char \<Rightarrow> bool" where
  "is_word_char c =
     (let n = (of_char c :: nat) in
      (48 \<le> n \<and> n \<le> 57) \<or> (65 \<le> n \<and> n \<le> 90) \<or> (97 \<le> n \<and> n \<le> 122) \<or> n = 95)"

definition lower_char :: "char \<Rightarrow> char" where
  "lower_char c =
     (let n = (of_char c :: nat) in if 65 \<le> n \<and> n \<le> 90 then char_of (n + 32) else c)"

definition upper_char :: "char \<Rightarrow> char" where
  "upper_char c =
     (let n = (of_char c :: nat) in if 97 \<le> n \<and> n \<le> 122 then char_of (n - 32) else c)"

definition toLowerCase :: "string \<Rightarrow> string" where
  "toLowerCase s = map lower_char s"

definition trim_by :: "('a \<Rightarrow> bool) \<Rightarrow> 'a list \<Rightarrow> 'a list" where
  "trim_by ws s = rev (dropWhile ws (rev (dropWhile ws s)))"

definition js_trim :: "string \<Rightarrow> string" where
  "js_trim s = trim_by is_ws s"

definition startsWith :: "string \<Rightarrow> string \<Rightarrow> bool" where
  "startsWith s p = (take (length p) s = p)"

definition substring_from :: "nat \<Rightarrow> string \<Rightarrow> string" where
  "substring_from n s = drop n s"

text \<open>\<^verbatim>\<open>detail.charAt(0).toUpperCase() + detail.slice(1)\<close>\<close>

definition capitalize :: "string \<Rightarrow> string" where
  "capitalize s = map upper_char (take 1 s) @ drop 1 s"

text \<open>\<^verbatim>\<open>s.match(/\d+/)\<close>: the first run of ASCII digits, or no match.\<close>

definition match_digits :: "string \<Rightarrow> string option" where
  "match_digits s =
     (let r = dropWhile (\<lambda>c. \<not> is_digit c) s in
      if r = [] then None else Some (takeWhile is_digit r))"

definition digit_val :: "char \<Rightarrow> int" where
  "digit_val c = int (of_char c) - 48"

definition digits_to_int :: "string \<Rightarrow> int" where
  "digits_to_int ds = foldl (\<lambda>n c. 10 * n + digit_val c) 0 ds"

text \<open>
  The integer that \<^verbatim>\<open>parseInt(s, 10)\<close> reads: leading white space is skipped, an optional
  sign is read, then the longest run of digits; \<open>None\<close> is \<^verbatim>\<open>NaN\<close>. Where the result is kept
  as a value it becomes a Number by \<open>to_Number\<close> below; where it is only compared with a
  list length the rounding of a large value makes no difference.
\<close>

definition js_parseInt :: "string \<Rightarrow> int option" where
  "js_parseInt s =
     (let t = dropWhile is_ws s;
          neg = (take 1 t = ''-'');
          u = (if take 1 t = ''-'' \<or> take 1 t = ''+'' then drop 1 t else t);
          ds = takeWhile is_digit u
      in if ds = [] then None
         else Some (if neg then - digits_to_int ds else digits_to_int ds))"

function show_nat :: "nat \<Rightarrow> string" where
  "show_nat n =
     (if n < 10 then [char_of (48 + n)]
      else show_nat (n div 10) @ [char_of (48 + n mod 10)])"
  by pat_completeness auto
termination
  by (relation "measure id") auto

declare show_nat.simps [simp del]

definition show_int :: "int \<Rightarrow> string" where
  "show_int i = (if i < 0 then ''-'' @ show_nat (nat (- i)) else show_nat (nat i))"

text \<open>\<^verbatim>\<open>Array.prototype.join\<close>\<close>

definition js_join :: "string \<Rightarrow> string list \<Rightarrow> string" where
  "js_join sep xs = (case xs of [] \<Rightarrow> [] | y # ys \<Rightarrow> y @ concat (map (\<lambda>z. sep @ z) ys))"

text \<open>\<^verbatim>\<open>userId.split('@')[0]\<close>\<close>

definition phone_of :: "string \<Rightarrow> string" where
  "phone_of userId = takeWhile (\<lambda>c. c \<noteq> CHR ''@'') userId"

section \<open>The sanitizer (utils/sanitizer.js)\<close>

text \<open>
  \<^verbatim>\<open>input.replace(/[^a-zA-Z0-9 .,!?@]/g, '').trim()\<close> on UTF-16 code units. The regular
  expression has no \<^verbatim>\<open>u\<close> flag, so it deletes code unit by code unit.
\<close>

definition allowed_unit :: "nat \<Rightarrow> bool" where
  "allowed_unit n =
     ((97 \<le> n \<and> n \<le> 122) \<or> (65 \<le> n \<and> n \<le> 90) \<or> (48 \<le> n \<and> n \<le> 57)
      \<or> n = 32 \<or> n = 46 \<or> n = 44 \<or> n = 33 \<or> n = 63 \<or> n = 64)"

text \<open>The code units \<^verbatim>\<open>trim\<close> strips: ECMAScript WhiteSpace and LineTerminator.\<close>

definition ws_unit :: "nat \<Rightarrow> bool" where
  "ws_unit n =
     (n \<in> {9, 10, 11, 12, 13, 32, 160, 5760, 8232, 8233, 8239, 8287, 12288, 65279}
      \<or> (8192 \<le> n \<and> n \<le> 8202))"

definition sanitizeInput :: "nat list \<Rightarrow> nat list" where
  "sanitizeInput input = trim_by ws_unit (filter allowed_unit input)"

text \<open>A sanitized body read as a string of the bot.\<close>

definition units_to_string :: "nat list \<Rightarrow> string" where
  "units_to_string us = map char_of us"

definition string_to_units :: "string \<Rightarrow> nat list" where
  "string_to_units s = map of_char s"

section \<open>Data model\<close>

subsection \<open>Rows of the database\<close>

text \<open>
  A \<^verbatim>\<open>DATETIME\<close> value is the number of seconds of local wall-clock time since
  1970-01-01 00:00:00; a JavaScript \<^verbatim>\<open>Date\<close> is \<open>Some\<close> of its time value in
  milliseconds on the same local clock, or \<open>None\<close> for an Invalid Date. The model has one
  time zone without daylight-saving shifts, so that the local getters and setters of
  \<^verbatim>\<open>Date\<close> are plain arithmetic.
\<close>

record appointment =
  ap_id :: int
  ap_student_id :: "int option"
  ap_appdate :: int
  ap_time :: int
  ap_purpose :: string
  ap_host :: string
  ap_type :: string
  ap_forgrade :: "int option"

datatype jsval =
    JUndef
  | JNull
  | JNum int
  | JNaN
  | JInf
  | JStr string
  | JDate "int option"
  | JRows "appointment list"

record student =
  st_id :: int
  st_displayname :: jsval
  st_grade :: jsval
  st_semester :: jsval
  st_referral :: jsval
  st_regdate :: int
  st_enrolled :: int

record contact =
  ci_id :: int
  ci_student_id :: int
  ci_email :: jsval
  ci_mobile :: "string option"
  ci_mobile2 :: "string option"

record guardian =
  gu_id :: int
  gu_firstname :: string
  gu_lastname :: string
  gu_mobile :: "string option"
  gu_email :: string

subsection \<open>Sessions\<close>

text \<open>
  \<^verbatim>\<open>session.data\<close> is a JavaScript object: an association list of property names and
  values, in insertion order. A missing property reads as \<^verbatim>\<open>undefined\<close>.
\<close>

type_synonym jsobj = "(string \<times> jsval) list"

definition get_prop :: "jsobj \<Rightarrow> string \<Rightarrow> jsval" where
  "get_prop obj k = (case map_of obj k of None \<Rightarrow> JUndef | Some v \<Rightarrow> v)"

definition set_prop :: "string \<Rightarrow> jsval \<Rightarrow> jsobj \<Rightarrow> jsobj" where
  "set_prop k v obj = AList.update k v obj"

definition delete_prop :: "string \<Rightarrow> jsobj \<Rightarrow> jsobj" where
  "delete_prop k obj = AList.delete k obj"

definition truthy :: "jsval \<Rightarrow> bool" where
  "truthy v =
     (case v of JUndef \<Rightarrow> False | JNull \<Rightarrow> False | JNaN \<Rightarrow> False
      | JInf \<Rightarrow> True
      | JNum n \<Rightarrow> n \<noteq> 0 | JStr s \<Rightarrow> s \<noteq> [] | JDate d \<Rightarrow> True | JRows r \<Rightarrow> True)"

record session =
  state :: string
  previousState :: "string option"
  intentDisabled :: bool
  checkedExistingData :: bool
  checkedExistingAppointment :: bool
  data :: jsobj

subsection \<open>The world the handlers run in\<close>

text \<open>
  \<open>sessions\<close> is the \<^verbatim>\<open>userSessions\<close> map, \<open>outbox\<close> the calls of \<^verbatim>\<open>sendMessage\<close> in
  order (user and text; \<^verbatim>\<open>sendMessage\<close> catches a failure of the WhatsApp client itself, so
  it never throws), the tables are those of the MySQL database, \<open>rate_cache\<close> is the
  cache of the rate limiter (count and expiry), \<open>now\<close> the clock, and \<open>db_ops\<close> counts the
  requests sent to the database so far.
\<close>

record world =
  sessions :: "(string \<times> session) list"
  outbox :: "(string \<times> string) list"
  students :: "student list"
  contacts :: "contact list"
  appointments :: "appointment list"
  guardians :: "guardian list"
  user_messages :: "(string \<times> string \<times> string) list"
  log_file :: "string list"
  rate_cache :: "(string \<times> nat \<times> int) list"
  now :: int
  db_ops :: nat

text \<open>
  The collaborators outside the repository. The functions of \<^verbatim>\<open>aiService\<close> that only
  wrap a prompt around a call of the remote model are oracles: \<open>validateInput\<close>,
  \<open>determineIntent\<close> and \<open>answerQuestion\<close> give their return value (they catch every
  failure of the remote call), \<open>callOpenAI_yesno\<close> is the remote answer that
  \<^verbatim>\<open>interpretYesNo\<close> post-processes (\<open>None\<close> is \<^verbatim>\<open>null\<close>). \<open>db_fail n\<close> says that request
  number \<open>n\<close> to the database is rejected. The remaining fields are services of the
  JavaScript runtime: locale formatting, \<^verbatim>\<open>Date\<close> parsing, \<^verbatim>\<open>JSON.stringify\<close>, and
  \<open>number_beyond_safe\<close>, the Number that the runtime makes of an integer text whose value
  lies beyond \<open>2\<^sup>5\<^sup>3\<close> (the rounded integer, or \<open>None\<close> for \<^verbatim>\<open>Infinity\<close>).
\<close>

record env =
  validateInput :: "string \<Rightarrow> string \<Rightarrow> string"
  determineIntent :: "string \<Rightarrow> string \<Rightarrow> string"
  answerQuestion :: "string \<Rightarrow> string \<Rightarrow> string"
  callOpenAI_yesno :: "string \<Rightarrow> string option"
  db_fail :: "nat \<Rightarrow> bool"
  botStartTime :: int
  inputContent :: string
  toLocaleDateString :: "int \<Rightarrow> string"
  toLocaleTimeString :: "int \<Rightarrow> string"
  toLocaleString :: "int option \<Rightarrow> string"
  toISOString :: "int \<Rightarrow> string"
  parseDate :: "string \<Rightarrow> int option"
  number_beyond_safe :: "int \<Rightarrow> int option"
  stringify_guardian :: "guardian \<Rightarrow> string"
  stringify_contact :: "contact \<Rightarrow> string"

text \<open>Template-literal conversion of a value, \<^verbatim>\<open>`${v}`\<close>.\<close>

definition js_String :: "env \<Rightarrow> jsval \<Rightarrow> string" where
  "js_String e v =
     (case v of JUndef \<Rightarrow> ''undefined'' | JNull \<Rightarrow> ''null'' | JNaN \<Rightarrow> ''NaN''
      | JInf \<Rightarrow> ''Infinity''
      | JNum n \<Rightarrow> show_int n | JStr s \<Rightarrow> s | JDate d \<Rightarrow> toLocaleString e d
      | JRows r \<Rightarrow> js_join '','' (map (\<lambda>x. ''[object Object]'') r))"

text \<open>
  The Number that \<^verbatim>\<open>parseInt\<close> returns for the integer it has read. A Number is a
  double: integers up to \<open>2\<^sup>5\<^sup>3\<close> in absolute value are exact, a larger one is rounded
  by the runtime.
\<close>

definition to_Number :: "env \<Rightarrow> int \<Rightarrow> jsval" where
  "to_Number e n =
     (if \<bar>n\<bar> \<le> 9007199254740992 then JNum n
      else (case number_beyond_safe e n of None \<Rightarrow> JInf | Some m \<Rightarrow> JNum m))"

text \<open>
  \<^verbatim>\<open>new Date(string)\<close>. A text without any digit has no day number and is never a date
  (the time value is \<^verbatim>\<open>NaN\<close>); any other text is left to the runtime's parser.
\<close>

definition Date_parse :: "env \<Rightarrow> string \<Rightarrow> int option" where
  "Date_parse e s = (if list_ex is_digit s then parseDate e s else None)"

text \<open>Sending a message and store operations.\<close>

definition sendMessage :: "string \<Rightarrow> string \<Rightarrow> world \<Rightarrow> world" where
  "sendMessage userId content w = w\<lparr>outbox := outbox w @ [(userId, content)]\<rparr>"

definition sessions_get :: "world \<Rightarrow> string \<Rightarrow> session option" where
  "sessions_get w userId = map_of (sessions w) userId"

definition sessions_set :: "string \<Rightarrow> session \<Rightarrow> world \<Rightarrow> world" where
  "sessions_set userId s w = w\<lparr>sessions := AList.update userId s (sessions w)\<rparr>"

definition sessions_delete :: "string \<Rightarrow> world \<Rightarrow> world" where
  "sessions_delete userId w = w\<lparr>sessions := AList.delete userId (sessions w)\<rparr>"

text \<open>One request to the database: whether it is rejected, and the counter advanced.\<close>

definition db_request :: "env \<Rightarrow> world \<Rightarrow> bool \<times> world" where
  "db_request e w = (db_fail e (db_ops w), w\<lparr>db_ops := Suc (db_ops w)\<rparr>)"

section \<open>The appointment service (services/appointmentService.js)\<close>

datatype 'a outcome = Returned 'a | Thrown

text \<open>
  \<^verbatim>\<open>formatDateTimeMySql\<close> renders the local date and time of a \<^verbatim>\<open>Date\<close> to the second. The
  literal \<^verbatim>\<open>'YYYY-MM-DD HH:MM:SS'\<close> is represented by its number of seconds; an Invalid
  Date gives the text \<^verbatim>\<open>'NaN-NaN-NaN NaN:NaN:NaN'\<close>, which is no \<^verbatim>\<open>DATETIME\<close> literal
  (\<open>None\<close>).
\<close>

definition formatDateTimeMySql :: "int option \<Rightarrow> int option" where
  "formatDateTimeMySql date = map_option (\<lambda>t. t div 1000) date"

definition ms_per_day :: int where
  "ms_per_day = 86400000"

text \<open>\<^verbatim>\<open>Date.prototype.getDay\<close>: 0 is Sunday; 1970-01-01 was a Thursday.\<close>

definition getDay :: "int \<Rightarrow> int" where
  "getDay t = (t div ms_per_day + 4) mod 7"

text \<open>\<^verbatim>\<open>d.setHours(0, 0, 0, 0)\<close>\<close>

definition start_of_day :: "int \<Rightarrow> int" where
  "start_of_day t = (t div ms_per_day) * ms_per_day"

text \<open>
  The grade only selects a section label, which \<^verbatim>\<open>getAvailableSlots\<close> computes and
  never uses.
\<close>

definition section_of_grade :: "string \<Rightarrow> string" where
  "section_of_grade grade =
     (let numericGrade = (case match_digits grade of None \<Rightarrow> 4 | Some ds \<Rightarrow> digits_to_int ds)
      in if numericGrade \<le> 3 then ''Section 1'' else ''Section 2'')"

text \<open>
  The direct check of one slot:
  \<^verbatim>\<open>SELECT COUNT(*) AS cnt FROM appointments WHERE appdate = ?\<close>. A rejected query leaves
  \<^verbatim>\<open>isSlotBooked\<close> true.
\<close>

definition slot_is_free :: "env \<Rightarrow> int \<Rightarrow> world \<Rightarrow> bool \<times> world" where
  "slot_is_free e slotDate w =
     (case db_request e w of
        (failed, w1) \<Rightarrow>
          if failed then (False, w1)
          else (length (filter (\<lambda>a. ap_appdate a = slotDate div 1000) (appointments w1)) = 0, w1))"

text \<open>The two inner loops: hours 8 to 14, minutes 0 and 30.\<close>

definition day_candidates :: "int \<Rightarrow> int list" where
  "day_candidates current =
     concat (map (\<lambda>hour. map (\<lambda>minute. start_of_day current + (hour * 60 + minute) * 60000)
                              [0, 30])
                 [8, 9, 10, 11, 12, 13, 14])"

fun check_slots :: "env \<Rightarrow> int \<Rightarrow> int list \<Rightarrow> world \<Rightarrow> int list \<Rightarrow> int list \<times> world" where
  "check_slots e nw [] w possibleSlots = (possibleSlots, w)"
| "check_slots e nw (slotDate # rest) w possibleSlots =
     (if slotDate > nw then
        (case slot_is_free e slotDate w of
           (free, w1) \<Rightarrow>
             check_slots e nw rest w1 (if free then possibleSlots @ [slotDate] else possibleSlots))
      else check_slots e nw rest w possibleSlots)"

definition day_step :: "env \<Rightarrow> int \<Rightarrow> int \<Rightarrow> world \<Rightarrow> int list \<Rightarrow> int list \<times> world" where
  "day_step e nw current w possibleSlots =
     (let dayOfWeek = getDay current in
      if 0 \<le> dayOfWeek \<and> dayOfWeek \<le> 4
      then check_slots e nw (day_candidates current) w possibleSlots
      else (possibleSlots, w))"

function slots_loop :: "env \<Rightarrow> int \<Rightarrow> int \<Rightarrow> int \<Rightarrow> world \<Rightarrow> int list \<Rightarrow> int list \<times> world" where
  "slots_loop e nw current endDate w possibleSlots =
     (if current < endDate
      then slots_loop e nw (current + ms_per_day) endDate
             (snd (day_step e nw current w possibleSlots))
             (fst (day_step e nw current w possibleSlots))
      else (possibleSlots, w))"
  by pat_completeness auto
termination
  by (relation "measure (\<lambda>(e, nw, current, endDate, w, acc). nat (endDate - current))")
     (auto simp: ms_per_day_def)

declare slots_loop.simps [simp del]

definition getAvailableSlots :: "env \<Rightarrow> string \<Rightarrow> world \<Rightarrow> int list \<times> world" where
  "getAvailableSlots e grade w =
     (let nw = now w;
          startDate = start_of_day (now w + ms_per_day);
          endDate = start_of_day (startDate + 3 * ms_per_day) + (ms_per_day - 1);
          section = section_of_grade grade
      in slots_loop e nw (start_of_day startDate) endDate w [])"

text \<open>
  \<^verbatim>\<open>saveAppointment\<close>. Every call on the connection is a request to the database and may
  be rejected. \<^verbatim>\<open>pool.getConnection()\<close> stands before the \<^verbatim>\<open>try\<close>; the \<^verbatim>\<open>catch\<close> block
  rolls back and returns false, and a failure of that rollback leaves the function as an
  exception. The server rejects a statement whose \<^verbatim>\<open>DATETIME\<close> literal is malformed.
  The inserted row becomes part of the table when the transaction commits.
\<close>

definition sql_int :: "jsval \<Rightarrow> int option" where
  "sql_int v = (case v of JNum n \<Rightarrow> Some n | _ \<Rightarrow> None)"

definition window_count :: "appointment list \<Rightarrow> int \<Rightarrow> int \<Rightarrow> nat" where
  "window_count rows lo hi =
     length (filter (\<lambda>a. lo \<le> ap_appdate a \<and> ap_appdate a \<le> hi) rows)"

text \<open>\<^verbatim>\<open>(idRows[0].maxId || 0) + 1\<close>; \<^verbatim>\<open>MAX(id)\<close> of an empty table is \<^verbatim>\<open>NULL\<close>.\<close>

definition max_id :: "int list \<Rightarrow> int option" where
  "max_id ids = (if ids = [] then None else Some (fold max ids (hd ids)))"

definition next_id :: "int list \<Rightarrow> int" where
  "next_id ids = (case max_id ids of None \<Rightarrow> 0 | Some m \<Rightarrow> (if m = 0 then 0 else m)) + 1"

definition save_catch :: "env \<Rightarrow> world \<Rightarrow> bool outcome \<times> world" where
  "save_catch e w =
     (case db_request e w of
        (rollback_failed, w1) \<Rightarrow> if rollback_failed then (Thrown, w1) else (Returned False, w1))"

definition new_appointment ::
  "int \<Rightarrow> jsval \<Rightarrow> int \<Rightarrow> string \<Rightarrow> string \<Rightarrow> jsval \<Rightarrow> appointment" where
  "new_appointment newAppointmentId studentId formattedSlotTime purpose type forgrade =
     \<lparr>ap_id = newAppointmentId, ap_student_id = sql_int studentId,
      ap_appdate = formattedSlotTime, ap_time = formattedSlotTime, ap_purpose = purpose,
      ap_host = ''IvyBot'', ap_type = type, ap_forgrade = sql_int forgrade\<rparr>"

definition save_insert ::
  "env \<Rightarrow> jsval \<Rightarrow> int \<Rightarrow> string \<Rightarrow> string \<Rightarrow> jsval \<Rightarrow> world \<Rightarrow> bool outcome \<times> world" where
  "save_insert e studentId formattedSlotTime purpose type forgrade w =
     (case db_request e w of
        (max_failed, w1) \<Rightarrow>
          if max_failed then save_catch e w1
          else
            (let newAppointmentId = next_id (map ap_id (appointments w1)) in
             case db_request e w1 of
               (insert_failed, w2) \<Rightarrow>
                 if insert_failed then save_catch e w2
                 else
                   (case db_request e w2 of
                      (commit_failed, w3) \<Rightarrow>
                        if commit_failed then save_catch e w3
                        else (Returned True,
                              w3\<lparr>appointments := appointments w3 @
                                   [new_appointment newAppointmentId studentId formattedSlotTime
                                      purpose type forgrade]\<rparr>))))"

definition saveAppointment ::
  "env \<Rightarrow> jsval \<Rightarrow> int option \<Rightarrow> string \<Rightarrow> string \<Rightarrow> jsval \<Rightarrow> world \<Rightarrow> bool outcome \<times> world" where
  "saveAppointment e studentId slotDatetime purpose type forgrade w =
     (case db_request e w of
        (connect_failed, w0) \<Rightarrow>
          if connect_failed then (Thrown, w0)
          else
            (case db_request e w0 of
               (begin_failed, w1) \<Rightarrow>
                 if begin_failed then save_catch e w1
                 else
                   (let formattedSlotTime = formatDateTimeMySql slotDatetime;
                        formattedMinus1Sec =
                          formatDateTimeMySql (map_option (\<lambda>t. t - 1000) slotDatetime);
                        formattedPlus1Sec =
                          formatDateTimeMySql (map_option (\<lambda>t. t + 1000) slotDatetime)
                    in case db_request e w1 of
                         (count_failed, w2) \<Rightarrow>
                           (case (formattedSlotTime, formattedMinus1Sec, formattedPlus1Sec) of
                              (Some slot, Some lo, Some hi) \<Rightarrow>
                                if count_failed then save_catch e w2
                                else if window_count (appointments w2) lo hi > 0 then
                                  (case db_request e w2 of
                                     (rollback_failed, w3) \<Rightarrow>
                                       if rollback_failed then save_catch e w3
                                       else (Returned False, w3))
                                else save_insert e studentId slot purpose type forgrade w2
                            | _ \<Rightarrow> save_catch e w2))))"

text \<open>
  Comparison of the integer column \<^verbatim>\<open>student_id\<close> with a query parameter. A text
  parameter is compared by its numeric value, read from its leading digits (0 when there
  are none); \<^verbatim>\<open>NULL\<close> equals nothing.
\<close>

definition sql_eq_param :: "int option \<Rightarrow> jsval \<Rightarrow> bool" where
  "sql_eq_param col p =
     (case col of
        None \<Rightarrow> False
      | Some i \<Rightarrow>
          (case p of
             JNum n \<Rightarrow> i = n
           | JStr s \<Rightarrow> i = (case js_parseInt s of None \<Rightarrow> 0 | Some n \<Rightarrow> n)
           | _ \<Rightarrow> False))"

definition future_appointments :: "world \<Rightarrow> jsval \<Rightarrow> appointment list" where
  "future_appointments w studentId =
     sort_key ap_appdate
       (filter (\<lambda>a. sql_eq_param (ap_student_id a) studentId \<and> ap_appdate a \<ge> now w div 1000)
               (appointments w))"

definition checkExistingAppointment ::
  "env \<Rightarrow> jsval \<Rightarrow> world \<Rightarrow> appointment option \<times> world" where
  "checkExistingAppointment e studentId w =
     (case db_request e w of
        (failed, w1) \<Rightarrow>
          if failed then (None, w1)
          else (case future_appointments w1 studentId of [] \<Rightarrow> (None, w1)
                | row # _ \<Rightarrow> (Some row, w1)))"

definition getAllFutureAppointments ::
  "env \<Rightarrow> jsval \<Rightarrow> world \<Rightarrow> appointment list \<times> world" where
  "getAllFutureAppointments e studentId w =
     (case db_request e w of
        (failed, w1) \<Rightarrow> if failed then ([], w1) else (future_appointments w1 studentId, w1))"

section \<open>The yes/no interpreter (services/aiService.js)\<close>

text \<open>
  \<^verbatim>\<open>interpretYesNo\<close> answers a plain yes or no itself and asks the remote model about
  anything else. \<^verbatim>\<open>replace(/[^\w\s]|_/g, "")\<close> keeps letters, digits and white space.
\<close>

definition interpretYesNo :: "env \<Rightarrow> string \<Rightarrow> string" where
  "interpretYesNo e userMessage =
     (let normalized =
            toLowerCase (filter (\<lambda>c. (is_word_char c \<or> is_ws c) \<and> c \<noteq> CHR ''_'')
                                (js_trim userMessage))
      in if normalized = ''yes'' then ''yes''
         else if normalized = ''no'' then ''no''
         else
           (case callOpenAI_yesno e userMessage of
              None \<Rightarrow> ''unknown''
            | Some response \<Rightarrow>
                if response = [] then ''unknown''
                else
                  (let normalizedResponse = toLowerCase (js_trim response) in
                   if normalizedResponse = ''yes'' then ''yes''
                   else if normalizedResponse = ''no'' then ''no''
                   else ''unknown'')))"

section \<open>The conversation controller (controllers/whatsappController.js)\<close>

text \<open>
  The model follows the later of the two versions of the controller in the source, the
  one with the \<^verbatim>\<open>exit\<close> command and the appointment-replacement states. In message texts
  an en dash of the source is written as a hyphen.
\<close>

subsection \<open>Helpers\<close>

definition nl :: string where
  "nl = [CHR 0x0A]"

text \<open>\<^verbatim>\<open>a || b\<close> on values, and \<^verbatim>\<open>parseInt(v, 10)\<close> of a value.\<close>

definition js_or :: "jsval \<Rightarrow> jsval \<Rightarrow> jsval" where
  "js_or a b = (if truthy a then a else b)"

definition parseInt_val :: "env \<Rightarrow> jsval \<Rightarrow> jsval" where
  "parseInt_val e v =
     (case v of
        JNum n \<Rightarrow> JNum n
      | JStr s \<Rightarrow> (case js_parseInt s of None \<Rightarrow> JNaN | Some n \<Rightarrow> to_Number e n)
      | _ \<Rightarrow> JNaN)"

text \<open>
  Reading a property that no value of the model owns (\<^verbatim>\<open>slot_date\<close>, \<^verbatim>\<open>slot_time\<close>):
  a \<^verbatim>\<open>TypeError\<close> on \<^verbatim>\<open>undefined\<close> and \<^verbatim>\<open>null\<close>, \<^verbatim>\<open>undefined\<close> on anything else.
\<close>

definition js_member :: "jsval \<Rightarrow> string \<Rightarrow> jsval outcome" where
  "js_member v name =
     (case v of JUndef \<Rightarrow> Thrown | JNull \<Rightarrow> Thrown | _ \<Rightarrow> Returned JUndef)"

text \<open>A query parameter: \<^verbatim>\<open>undefined\<close> is sent as \<^verbatim>\<open>NULL\<close>.\<close>

definition to_sql :: "jsval \<Rightarrow> jsval" where
  "to_sql v = (if v = JUndef then JNull else v)"

definition storeKeyMapping :: "string \<Rightarrow> string option" where
  "storeKeyMapping =
     map_of [(''name'', ''displayname''), (''email'', ''email''), (''grade_level'', ''grade''),
             (''semester'', ''semester''), (''referral_source'', ''referral'')]"

definition exit_hint :: string where
  \<open>exit_hint = '' You can type "exit" at any time to cancel the process.''\<close>

definition getPromptForState :: "env \<Rightarrow> string \<Rightarrow> jsobj \<Rightarrow> string outcome" where
  \<open>getPromptForState e st sessionData =
     (if st = ''admission_displayname'' then
        Returned (''Please provide your full name.'' @ exit_hint)
      else if st = ''admission_email'' then
        Returned (''What is your email address?'' @ exit_hint)
      else if st = ''admission_grade'' then
        Returned (''For which grade are you applying? (e.g., Grade 3).'' @ exit_hint)
      else if st = ''admission_semester'' then
        Returned (''Which semester are you applying for? (1 or 2).'' @ exit_hint)
      else if st = ''admission_referral'' then
        Returned (''How did you hear about us? (Twitter, Facebook, Instagram, YouTube, Friend, Other).''
                  @ exit_hint)
      else if st = ''admission_confirm'' then
        (if \<not> truthy (get_prop sessionData ''displayname'') \<and> \<not> truthy (get_prop sessionData ''email'')
            \<and> \<not> truthy (get_prop sessionData ''grade'') \<and> \<not> truthy (get_prop sessionData ''semester'')
            \<and> \<not> truthy (get_prop sessionData ''referral'')
         then Returned (''Let's start the admission process. Please provide your full name.''
                        @ exit_hint)
         else Returned
           (''Please review your details:'' @ nl
            @ ''- Name: '' @ js_String e (js_or (get_prop sessionData ''displayname'') (JStr ''Not provided'')) @ nl
            @ ''- Email: '' @ js_String e (js_or (get_prop sessionData ''email'') (JStr ''Not provided'')) @ nl
            @ ''- Grade: '' @ js_String e (js_or (get_prop sessionData ''grade'') (JStr ''Not provided'')) @ nl
            @ ''- Semester: '' @ js_String e (js_or (get_prop sessionData ''semester'') (JStr ''Not provided'')) @ nl
            @ ''- Referral: '' @ js_String e (js_or (get_prop sessionData ''referral'') (JStr ''Not provided'')) @ nl
            @ nl @ ''Are all details correct? (Yes/No)'' @ exit_hint))
      else if st = ''admission_change_or_cancel'' then
        Returned ''Would you like to change any detail or cancel the admission process? (Reply "Change" or "Cancel")''
      else if st = ''admission_choose_detail_to_change'' then
        Returned (''Which detail would you like to change? (Name, Email, Grade, Semester, Referral).''
                  @ exit_hint)
      else if st = ''update_detail'' then
        (case get_prop sessionData ''detailToUpdate'' of
           JStr d \<Rightarrow> Returned (''Please provide the new value for '' @ capitalize d @ ''.'' @ exit_hint)
         | _ \<Rightarrow> Thrown)
      else if st = ''meeting_offer'' then
        Returned (''Your admission is submitted. Would you like to schedule a meeting now? (Yes/No)''
                  @ exit_hint)
      else if st = ''meeting_show_slots'' then
        Returned (''Available slots (8:00 AM-3:00 PM, every 30 min, Sun-Thu):'' @ nl
                  @ js_String e (get_prop sessionData ''slotsList'') @ nl
                  @ ''Please choose a slot number.'' @ exit_hint)
      else if st = ''awaiting_continue'' then Returned ''How can I help you today?''
      else if st = ''check_existing_appointment'' then
        Returned ''Would you like to proceed with the admission process anyway? (Yes/No)''
      else if st = ''confirm_existing_data'' then
        Returned ''Would you like to use these details? (Yes/No)''
      else if st = ''confirm_replace_appointment'' then
        Returned ''Do you want to replace the existing appointment? (Yes/No)''
      else if st = ''confirm_book_another_appointment'' then
        Returned ''Would you like to book another appointment? (Yes/No)''
      else Returned [])\<close>

definition isValidValidation :: "string \<Rightarrow> bool" where
  "isValidValidation result =
     (let normalized = js_trim (toLowerCase result) in
      normalized = ''valid'' \<or> startsWith normalized ''valid '')"

text \<open>
  A handler ends normally or by an exception that leaves \<^verbatim>\<open>handleSession\<close>; in both cases
  the effects so far stay in the world.
\<close>

type_synonym hres = "unit outcome \<times> world"

definition finished :: "world \<Rightarrow> hres" where
  "finished w = (Returned (), w)"

definition thrown :: "world \<Rightarrow> hres" where
  "thrown w = (Thrown, w)"

definition send_prompt :: "env \<Rightarrow> string \<Rightarrow> string \<Rightarrow> jsobj \<Rightarrow> world \<Rightarrow> hres" where
  "send_prompt e userId st sessionData w =
     (case getPromptForState e st sessionData of
        Thrown \<Rightarrow> thrown w
      | Returned p \<Rightarrow> finished (sendMessage userId p w))"

subsection \<open>Queries of the controller\<close>

text \<open>
  Text columns are compared with a text parameter by equality. A join lists the student
  rows in table order, each with its contact rows in table order.
\<close>

definition mobile_matches :: "contact \<Rightarrow> string \<Rightarrow> bool" where
  "mobile_matches c phone = (ci_mobile c = Some phone \<or> ci_mobile2 c = Some phone)"

definition existing_data_by_phone :: "world \<Rightarrow> string \<Rightarrow> (student \<times> contact) list" where
  "existing_data_by_phone w phone =
     concat (map (\<lambda>s. map (\<lambda>c. (s, c))
                        (filter (\<lambda>c. ci_student_id c = st_id s \<and> mobile_matches c phone)
                                (contacts w)))
                 (filter (\<lambda>s. st_enrolled s = 0) (students w)))"

definition existing_data_by_id :: "world \<Rightarrow> int \<Rightarrow> (student \<times> contact) list" where
  "existing_data_by_id w studentId =
     take 1 (concat (map (\<lambda>s. map (\<lambda>c. (s, c))
                                (filter (\<lambda>c. ci_student_id c = st_id s) (contacts w)))
                         (filter (\<lambda>s. st_id s = studentId \<and> st_enrolled s = 0) (students w))))"

definition found_fields :: "env \<Rightarrow> student \<Rightarrow> contact \<Rightarrow> jsobj" where
  "found_fields e s c =
     [(''displayname'', st_displayname s),
      (''email'', ci_email c),
      (''grade'', if truthy (st_grade s) then parseInt_val e (st_grade s) else JNull),
      (''semester'', if truthy (st_semester s) then parseInt_val e (st_semester s) else JNull),
      (''referral'', js_or (st_referral s) (JStr ''Unknown''))]"

definition found_prompt_tail :: string where
  \<open>found_prompt_tail =
     ''Would you like to use these details? (Reply "Yes" to use them, or "No" to fill out the form)''\<close>

text \<open>The message built from the raw columns of the row found.\<close>

definition found_message_raw :: "env \<Rightarrow> student \<Rightarrow> contact \<Rightarrow> string" where
  "found_message_raw e s c =
     ''We found your information based on your phone number:'' @ nl
     @ ''- Name: '' @ js_String e (st_displayname s) @ nl
     @ ''- Email: '' @ js_String e (ci_email c) @ nl
     @ ''- Grade: '' @ js_String e (st_grade s) @ nl
     @ ''- Semester: '' @ js_String e (st_semester s) @ nl
     @ ''- Referral: '' @ js_String e (st_referral s) @ nl @ nl
     @ found_prompt_tail"

text \<open>The message built from the session data, with \<^verbatim>\<open>'N/A'\<close> for a missing value.\<close>

definition found_message_data :: "env \<Rightarrow> jsobj \<Rightarrow> string" where
  "found_message_data e d =
     ''We found your information based on your phone number:'' @ nl
     @ ''- Name: '' @ js_String e (js_or (get_prop d ''displayname'') (JStr ''N/A'')) @ nl
     @ ''- Email: '' @ js_String e (js_or (get_prop d ''email'') (JStr ''N/A'')) @ nl
     @ ''- Grade: '' @ js_String e (js_or (get_prop d ''grade'') (JStr ''N/A'')) @ nl
     @ ''- Semester: '' @ js_String e (js_or (get_prop d ''semester'') (JStr ''N/A'')) @ nl
     @ ''- Referral: '' @ js_String e (js_or (get_prop d ''referral'') (JStr ''N/A'')) @ nl @ nl
     @ found_prompt_tail"

text \<open>\<^verbatim>\<open>getUserInfo\<close>: the guardian table first, then the contact table.\<close>

definition getUserInfo :: "env \<Rightarrow> string \<Rightarrow> world \<Rightarrow> (string \<times> string) option outcome \<times> world" where
  "getUserInfo e userPhone w =
     (let phone = phone_of userPhone in
      case db_request e w of
        (failed1, w1) \<Rightarrow>
          if failed1 then (Thrown, w1)
          else
            (case filter (\<lambda>g. gu_mobile g = Some phone) (guardians w1) of
               g # _ \<Rightarrow> (Returned (Some (''parent'', stringify_guardian e g)), w1)
             | [] \<Rightarrow>
                 (case db_request e w1 of
                    (failed2, w2) \<Rightarrow>
                      if failed2 then (Thrown, w2)
                      else
                        (case filter (\<lambda>c. mobile_matches c phone) (contacts w2) of
                           c # _ \<Rightarrow> (Returned (Some (''student'', stringify_contact e c)), w2)
                         | [] \<Rightarrow> (Returned None, w2)))))"

text \<open>The reply to a message that is neither a question nor about admission.\<close>

definition other_intent :: "env \<Rightarrow> string \<Rightarrow> world \<Rightarrow> hres" where
  "other_intent e userId w =
     (case getUserInfo e userId w of
        (Thrown, w1) \<Rightarrow> thrown w1
      | (Returned (Some (role, json)), w1) \<Rightarrow>
          finished
            (sessions_delete userId
               (sendMessage userId ''How can I help you today?''
                  (sendMessage userId (''We found your info as a '' @ role @ '':'' @ nl @ json) w1)))
      | (Returned None, w1) \<Rightarrow>
          finished
            (sendMessage userId
               ''Hello! You can ask about admissions or any general question about the school.'' w1))"

text \<open>The numbered list of slots shown to the user.\<close>

definition render_slots :: "env \<Rightarrow> int list \<Rightarrow> string" where
  "render_slots e slots =
     js_join nl
       (map (\<lambda>(i, slotDate).
               show_nat (i + 1) @ ''. '' @ toLocaleDateString e slotDate @ '', ''
               @ toLocaleTimeString e slotDate)
            (zip [0 ..< length slots] slots))"

subsection \<open>The states of \<^verbatim>\<open>handleSession\<close>\<close>

text \<open>
  \<^verbatim>\<open>handleSession\<close> is called with the object stored under \<open>userId\<close>, so an assignment to
  a field of \<^verbatim>\<open>session\<close> is an assignment to the stored object, with or without a later
  \<^verbatim>\<open>userSessions.set\<close>. Each branch below therefore leaves the session as it has changed
  it in the store, unless it deletes the entry; a branch that changes nothing and calls
  no \<^verbatim>\<open>set\<close> leaves the store alone.
\<close>

definition prompt_and_keep :: "env \<Rightarrow> string \<Rightarrow> session \<Rightarrow> world \<Rightarrow> hres" where
  "prompt_and_keep e userId s w =
     (case send_prompt e userId (state s) (data s) w of
        (Thrown, w1) \<Rightarrow> thrown (sessions_set userId s w1)
      | (Returned u, w1) \<Rightarrow> finished (sessions_set userId s w1))"

text \<open>
  The answer "yes" in \<^verbatim>\<open>confirm_book_another_appointment\<close> and in
  \<^verbatim>\<open>check_existing_appointment\<close>: look for the data of a student not yet enrolled.
\<close>

definition use_existing_data :: "env \<Rightarrow> string \<Rightarrow> session \<Rightarrow> world \<Rightarrow> hres" where
  "use_existing_data e userId s w =
     (case db_request e w of
        (failed, w1) \<Rightarrow>
          if failed then thrown w1
          else
            (case existing_data_by_phone w1 (phone_of userId) of
               (st, c) # _ \<Rightarrow>
                 finished
                   (sessions_set userId
                      (s\<lparr>data := (''studentId'', JNum (st_id st)) # found_fields e st c,
                         state := ''confirm_existing_data'',
                         checkedExistingData := True\<rparr>)
                      (sendMessage userId (found_message_raw e st c) w1))
             | [] \<Rightarrow>
                 prompt_and_keep e userId
                   (s\<lparr>state := ''admission_displayname'', checkedExistingData := True,
                      data := []\<rparr>) w1))"

definition confirm_book_another_appointment ::
  "env \<Rightarrow> string \<Rightarrow> string \<Rightarrow> session \<Rightarrow> world \<Rightarrow> hres" where
  "confirm_book_another_appointment e userId userMessage s w =
     (if toLowerCase (interpretYesNo e userMessage) = ''yes''
      then use_existing_data e userId s w
      else finished
             (sessions_delete userId
                (sendMessage userId
                   ''Okay. Your existing appointments remain scheduled. Let us know if you need anything else.''
                   w)))"

definition check_existing_appointment ::
  "env \<Rightarrow> string \<Rightarrow> string \<Rightarrow> session \<Rightarrow> world \<Rightarrow> hres" where
  "check_existing_appointment e userId userMessage s w =
     (if toLowerCase (interpretYesNo e userMessage) = ''yes''
      then use_existing_data e userId s w
      else finished
             (sendMessage userId
                ''Okay, admission process cancelled. Your existing appointment remains scheduled. Let us know if you need anything else.''
                (sessions_delete userId w)))"

definition confirm_existing_data ::
  "env \<Rightarrow> string \<Rightarrow> string \<Rightarrow> session \<Rightarrow> world \<Rightarrow> hres" where
  \<open>confirm_existing_data e userId userMessage s w =
     (let yesNo = interpretYesNo e userMessage in
      if toLowerCase yesNo = ''yes'' then
        prompt_and_keep e userId (s\<lparr>state := ''meeting_offer''\<rparr>) w
      else if toLowerCase yesNo = ''no'' then
        prompt_and_keep e userId (s\<lparr>state := ''admission_choose_detail_to_change''\<rparr>) w
      else
        finished
          (sendMessage userId
             ''Sorry, I didn't understand. Please reply 'Yes' to use the found details or 'No' to fill out the form.''
             w))\<close>

text \<open>The five states that collect one field each.\<close>

definition validationType_of_state :: "string \<Rightarrow> string" where
  "validationType_of_state st =
     (if st = ''admission_displayname'' then ''name''
      else if st = ''admission_email'' then ''email''
      else if st = ''admission_grade'' then ''grade_level''
      else if st = ''admission_semester'' then ''semester''
      else if st = ''admission_referral'' then ''referral_source''
      else ''text'')"

definition next_state :: "string \<Rightarrow> string" where
  "next_state st =
     (if st = ''admission_displayname'' then ''admission_email''
      else if st = ''admission_email'' then ''admission_grade''
      else if st = ''admission_grade'' then ''admission_semester''
      else if st = ''admission_semester'' then ''admission_referral''
      else if st = ''admission_referral'' then ''admission_confirm''
      else [])"

definition store_key :: "string \<Rightarrow> string" where
  "store_key validationType =
     (case storeKeyMapping validationType of None \<Rightarrow> validationType | Some k \<Rightarrow> k)"

text \<open>\<^verbatim>\<open>m ? parseInt(m[0], 10) : null\<close> for \<^verbatim>\<open>m = text.match(/\d+/)\<close>.\<close>

definition first_int_or_null :: "env \<Rightarrow> string \<Rightarrow> jsval" where
  "first_int_or_null e text =
     (case match_digits text of None \<Rightarrow> JNull | Some ds \<Rightarrow> to_Number e (digits_to_int ds))"

definition field_collection :: "env \<Rightarrow> string \<Rightarrow> string \<Rightarrow> session \<Rightarrow> world \<Rightarrow> hres" where
  "field_collection e userId userMessage s w =
     (let validationType = validationType_of_state (state s);
          validationRes = validateInput e validationType userMessage
      in if isValidValidation validationRes then
           (let storeKey = store_key validationType;
                extractedValue =
                  (if startsWith (toLowerCase validationRes) ''valid ''
                   then js_trim (substring_from 6 validationRes)
                   else js_trim userMessage);
                stored =
                  (if storeKey = ''grade'' then first_int_or_null e extractedValue
                   else if storeKey = ''semester'' then first_int_or_null e extractedValue
                   else JStr extractedValue);
                s1 = s\<lparr>data := set_prop storeKey stored (data s),
                       state := next_state (state s)\<rparr>
            in send_prompt e userId (state s1) (data s1) (sessions_set userId s1 w))
         else
           (case send_prompt e userId (state s) (data s) (sendMessage userId validationRes w) of
              (Thrown, w1) \<Rightarrow> thrown w1
            | (Returned u, w1) \<Rightarrow> finished (sessions_set userId s w1)))"

text \<open>
  \<^verbatim>\<open>admission_confirm\<close>. The two statements of an update or an insertion are separate
  requests outside any transaction: when the second is rejected the first has happened.
\<close>

definition persist_failed :: "string \<Rightarrow> world \<Rightarrow> hres" where
  "persist_failed userId w =
     finished
       (sessions_delete userId
          (sendMessage userId ''There was a problem saving your data. Please try again later.'' w))"

definition update_contact_rows :: "jsval \<Rightarrow> jsval \<Rightarrow> string \<Rightarrow> contact list \<Rightarrow> contact list" where
  "update_contact_rows studentId email phone rows =
     map (\<lambda>c. if sql_eq_param (Some (ci_student_id c)) studentId
               then c\<lparr>ci_email := to_sql email, ci_mobile := Some phone\<rparr> else c) rows"

definition update_student_rows :: "jsval \<Rightarrow> jsobj \<Rightarrow> student list \<Rightarrow> student list" where
  "update_student_rows studentId d rows =
     map (\<lambda>r. if sql_eq_param (Some (st_id r)) studentId
               then r\<lparr>st_displayname := to_sql (get_prop d ''displayname''),
                      st_grade := to_sql (get_prop d ''grade''),
                      st_semester := to_sql (get_prop d ''semester''),
                      st_referral := to_sql (get_prop d ''referral'')\<rparr>
               else r) rows"

definition persist_update :: "env \<Rightarrow> string \<Rightarrow> session \<Rightarrow> world \<Rightarrow> (bool \<times> world)" where
  "persist_update e userId s w =
     (case db_request e w of
        (failed1, w1) \<Rightarrow>
          if failed1 then (False, w1)
          else
            (let w2 = w1\<lparr>contacts :=
                          update_contact_rows (get_prop (data s) ''studentId'')
                            (get_prop (data s) ''email'') (phone_of userId) (contacts w1)\<rparr>
             in case db_request e w2 of
                  (failed2, w3) \<Rightarrow>
                    if failed2 then (False, w3)
                    else (True,
                          w3\<lparr>students :=
                               update_student_rows (get_prop (data s) ''studentId'') (data s)
                                 (students w3)\<rparr>)))"

definition persist_insert :: "env \<Rightarrow> string \<Rightarrow> session \<Rightarrow> world \<Rightarrow> (int option \<times> world)" where
  "persist_insert e userId s w =
     (case db_request e w of
        (failed1, w1) \<Rightarrow>
          if failed1 then (None, w1)
          else
            (let newStudentId = next_id (map st_id (students w1)) in
             case db_request e w1 of
               (failed2, w2) \<Rightarrow>
                 if failed2 then (None, w2)
                 else
                   (let w3 = w2\<lparr>students := students w2 @
                                  [\<lparr>st_id = newStudentId,
                                    st_displayname = to_sql (get_prop (data s) ''displayname''),
                                    st_grade = to_sql (get_prop (data s) ''grade''),
                                    st_semester = to_sql (get_prop (data s) ''semester''),
                                    st_referral = to_sql (get_prop (data s) ''referral''),
                                    st_regdate = now w2 div 1000, st_enrolled = 0\<rparr>]\<rparr>
                    in case db_request e w3 of
                         (failed3, w4) \<Rightarrow>
                           if failed3 then (None, w4)
                           else
                             (let newContactId = next_id (map ci_id (contacts w4)) in
                              case db_request e w4 of
                                (failed4, w5) \<Rightarrow>
                                  if failed4 then (None, w5)
                                  else (Some newStudentId,
                                        w5\<lparr>contacts := contacts w5 @
                                             [\<lparr>ci_id = newContactId, ci_student_id = newStudentId,
                                               ci_email = to_sql (get_prop (data s) ''email''),
                                               ci_mobile = Some (phone_of userId),
                                               ci_mobile2 = None\<rparr>]\<rparr>)))))"

definition admission_confirm :: "env \<Rightarrow> string \<Rightarrow> string \<Rightarrow> session \<Rightarrow> world \<Rightarrow> hres" where
  "admission_confirm e userId userMessage s w =
     (let yesNo = interpretYesNo e userMessage in
      if toLowerCase yesNo = ''yes'' then
        (if truthy (get_prop (data s) ''studentId'') then
           (case persist_update e userId s w of
              (ok, w1) \<Rightarrow>
                if ok then prompt_and_keep e userId (s\<lparr>state := ''meeting_offer''\<rparr>) w1
                else persist_failed userId w1)
         else
           (case persist_insert e userId s w of
              (Some newStudentId, w1) \<Rightarrow>
                prompt_and_keep e userId
                  (s\<lparr>data := set_prop ''studentId'' (JNum newStudentId) (data s),
                     state := ''meeting_offer''\<rparr>) w1
            | (None, w1) \<Rightarrow> persist_failed userId w1))
      else if yesNo = ''no'' then
        prompt_and_keep e userId (s\<lparr>state := ''admission_choose_detail_to_change''\<rparr>) w
      else
        finished
          (sendMessage userId ''I did not understand. Are all details correct? (Yes/No)'' w))"

definition admission_choose_detail_to_change ::
  "env \<Rightarrow> string \<Rightarrow> string \<Rightarrow> session \<Rightarrow> world \<Rightarrow> hres" where
  "admission_choose_detail_to_change e userId userMessage s w =
     (let detail = toLowerCase (js_trim userMessage) in
      if detail \<in> set [''name'', ''email'', ''grade'', ''semester'', ''referral''] then
        finished
          (sessions_set userId
             (s\<lparr>data := set_prop ''detailToUpdate'' (JStr detail) (data s),
                state := ''update_detail''\<rparr>)
             (sendMessage userId (''Please provide your new '' @ capitalize detail @ ''.'') w))
      else
        finished
          (sessions_set userId s
             (sendMessage userId
                ''Please choose a valid detail: Name, Email, Grade, Semester, or Referral.'' w)))"

definition validationType_of_detail :: "jsval \<Rightarrow> string" where
  "validationType_of_detail detailToUpdate =
     (if detailToUpdate = JStr ''name'' then ''name''
      else if detailToUpdate = JStr ''email'' then ''email''
      else if detailToUpdate = JStr ''grade'' then ''grade_level''
      else if detailToUpdate = JStr ''semester'' then ''semester''
      else if detailToUpdate = JStr ''referral'' then ''referral_source''
      else ''text'')"

definition number_to_store :: "env \<Rightarrow> string \<Rightarrow> string \<Rightarrow> jsval" where
  "number_to_store e validationRes userMessage =
     (let attempt1 =
            (if startsWith (toLowerCase validationRes) ''valid ''
             then first_int_or_null e (js_trim (substring_from 6 validationRes))
             else JNull)
      in if attempt1 = JNull then first_int_or_null e userMessage else attempt1)"

definition update_detail :: "env \<Rightarrow> string \<Rightarrow> string \<Rightarrow> session \<Rightarrow> world \<Rightarrow> hres" where
  "update_detail e userId userMessage s w =
     (let detailToUpdate = get_prop (data s) ''detailToUpdate'';
          validationType = validationType_of_detail detailToUpdate;
          validationRes = validateInput e validationType userMessage
      in if isValidValidation validationRes then
           (let storeKey = store_key validationType;
                valueToStore =
                  (if storeKey = ''grade'' \<or> storeKey = ''semester''
                   then number_to_store e validationRes userMessage
                   else JStr (js_trim userMessage));
                s1 = s\<lparr>data := set_prop ''detailToUpdate'' JNull
                                 (set_prop storeKey valueToStore (data s)),
                       state := ''admission_confirm''\<rparr>;
                displayValue =
                  (if valueToStore \<noteq> JNull then valueToStore else JStr (js_trim userMessage))
            in prompt_and_keep e userId s1
                 (sendMessage userId
                    (''Thank you! Your '' @ js_String e detailToUpdate @ '' has been updated to ''
                     @ js_String e displayValue @ ''.'') w))
         else
           (case send_prompt e userId (state s) (data s) (sendMessage userId validationRes w) of
              (Thrown, w1) \<Rightarrow> thrown w1
            | (Returned u, w1) \<Rightarrow> finished (sessions_set userId s w1)))"

definition meeting_offer :: "env \<Rightarrow> string \<Rightarrow> string \<Rightarrow> session \<Rightarrow> world \<Rightarrow> hres" where
  "meeting_offer e userId userMessage s w =
     (let yesNo = toLowerCase (interpretYesNo e userMessage) in
      if yesNo = ''yes'' then
        (let s1 = s\<lparr>state := ''meeting_show_slots''\<rparr>;
             gradeNumber =
               (if truthy (get_prop (data s) ''grade'')
                then parseInt_val e (get_prop (data s) ''grade'') else JNum 4);
             gradeForSlots = ''Grade '' @ js_String e gradeNumber
         in case getAvailableSlots e gradeForSlots (sessions_set userId s1 w) of
              (slots, w1) \<Rightarrow>
                if length slots = 0 then
                  finished
                    (sessions_delete userId
                       (sendMessage userId
                          ''No available slots in the next three days (Sun-Thu, 8:00-15:00).'' w1))
                else
                  (let slotsList = render_slots e slots in
                   finished
                     (sendMessage userId
                        (''Available slots (Tomorrow and the next 2 days, 8:00 AM-3:00 PM, every 30 min, Sun-Thu):''
                         @ nl @ slotsList @ nl @ ''Please choose a slot number:'')
                        (sessions_set userId
                           (s1\<lparr>data := set_prop ''slotsList'' (JStr slotsList) (data s1)\<rparr>) w1))))
      else if yesNo = ''no'' then
        finished
          (sessions_delete userId
             (sendMessage userId ''No worries! Let us know if you need anything else.'' w))
      else
        finished
          (sendMessage userId
             ''I did not understand. Would you like to schedule a meeting? (Yes/No)'' w))"

text \<open>
  \<^verbatim>\<open>meeting_show_slots\<close>. The slot list is computed afresh; the look-up of an existing
  appointment is made with the phone number as the student identifier, as in the source.
\<close>

definition book_chosen_slot :: "env \<Rightarrow> string \<Rightarrow> session \<Rightarrow> int \<Rightarrow> world \<Rightarrow> hres" where
  "book_chosen_slot e userId s appointmentDateTime w =
     (case saveAppointment e (get_prop (data s) ''studentId'') (Some appointmentDateTime)
             ''Admission Inquiry'' ''Admission'' (get_prop (data s) ''grade'') w of
        (Returned success, w1) \<Rightarrow>
          if success then
            (let s1 = s\<lparr>state := ''awaiting_continue'',
                         data := delete_prop ''slotsList'' (data s)\<rparr>
             in send_prompt e userId (state s1) (data s1)
                  (sessions_set userId s1
                     (sendMessage userId
                        (''Your meeting is scheduled for '' @ toLocaleDateString e appointmentDateTime
                         @ '' at '' @ toLocaleTimeString e appointmentDateTime @ ''.'') w1)))
          else
            finished
              (sessions_delete userId
                 (sendMessage userId
                    ''Sorry, the selected slot might have just been taken or there was a problem scheduling your appointment. Please try again later.''
                    w1))
      | (Thrown, w1) \<Rightarrow>
          finished
            (sessions_delete userId
               (sendMessage userId
                  ''Sorry, there was an error scheduling your appointment. Please try again later.''
                  w1)))"

definition meeting_show_slots :: "env \<Rightarrow> string \<Rightarrow> string \<Rightarrow> session \<Rightarrow> world \<Rightarrow> hres" where
  "meeting_show_slots e userId userMessage s w =
     (let chosenNum = js_parseInt (js_trim userMessage);
          gradeForSlots =
            (if truthy (get_prop (data s) ''grade'')
             then ''Grade '' @ js_String e (get_prop (data s) ''grade'') else ''Grade 4'')
      in case getAvailableSlots e gradeForSlots w of
           (availableSlotsObjects, w1) \<Rightarrow>
             (case chosenNum of
                None \<Rightarrow>
                  finished
                    (sendMessage userId
                       (''Available slots:'' @ nl @ render_slots e availableSlotsObjects @ nl
                        @ ''Please choose a slot number:'')
                       (sendMessage userId
                          ''Invalid slot number. Please choose one of the listed options.'' w1))
              | Some n \<Rightarrow>
                  if n \<le> 0 \<or> n > int (length availableSlotsObjects) then
                    finished
                      (sendMessage userId
                         (''Available slots:'' @ nl @ render_slots e availableSlotsObjects @ nl
                          @ ''Please choose a slot number:'')
                         (sendMessage userId
                            ''Invalid slot number. Please choose one of the listed options.'' w1))
                  else
                    (let appointmentDateTime = availableSlotsObjects ! nat (n - 1) in
                     case checkExistingAppointment e (JStr (phone_of userId)) w1 of
                       (Some existingAppointment, w2) \<Rightarrow>
                         (let existingDate = Some (ap_appdate existingAppointment * 1000);
                              s1 = s\<lparr>data :=
                                       set_prop ''existingAppointmentDate'' (JDate existingDate)
                                         (set_prop ''pendingSlot''
                                            (JDate (Some appointmentDateTime)) (data s)),
                                     state := ''confirm_replace_appointment''\<rparr>
                          in finished
                               (sendMessage userId
                                  (''You already have an appointment scheduled for ''
                                   @ toLocaleString e existingDate
                                   @ ''. Do you want to replace it with the new slot on ''
                                   @ toLocaleString e (Some appointmentDateTime) @ ''? (Yes/No)'')
                                  (sessions_set userId s1 w2)))
                     | (None, w2) \<Rightarrow> book_chosen_slot e userId s appointmentDateTime w2)))"

text \<open>
  \<^verbatim>\<open>confirm_replace_appointment\<close>. The date to book is built as
  \<^verbatim>\<open>new Date(`${chosenSlot.slot_date} ${chosenSlot.slot_time}`)\<close> from the stored
  \<^verbatim>\<open>pendingSlot\<close>; reading the two properties stands before the \<^verbatim>\<open>try\<close>.
\<close>

definition confirm_replace_appointment ::
  "env \<Rightarrow> string \<Rightarrow> string \<Rightarrow> session \<Rightarrow> world \<Rightarrow> hres" where
  "confirm_replace_appointment e userId userMessage s w =
     (let yesNo = interpretYesNo e userMessage in
      if toLowerCase yesNo = ''yes'' then
        (let chosenSlot = get_prop (data s) ''pendingSlot'' in
         case (js_member chosenSlot ''slot_date'', js_member chosenSlot ''slot_time'') of
           (Returned slot_date, Returned slot_time) \<Rightarrow>
             (let appointmentDateTime =
                    Date_parse e (js_String e slot_date @ '' '' @ js_String e slot_time)
              in case saveAppointment e (get_prop (data s) ''studentId'') appointmentDateTime
                        ''Admission Inquiry'' ''Admission'' (get_prop (data s) ''grade'') w of
                   (Returned success, w1) \<Rightarrow>
                     if success then
                       (let s1 = s\<lparr>state := ''awaiting_continue'',
                                    data := delete_prop ''existingAppointmentDate''
                                              (delete_prop ''pendingSlot'' (data s))\<rparr>
                        in send_prompt e userId (state s1) (data s1)
                             (sessions_set userId s1
                                (sendMessage userId
                                   (''Okay, your previous appointment has been replaced. Your new meeting is scheduled for ''
                                    @ js_String e slot_date @ '' at '' @ js_String e slot_time @ ''.'')
                                   w1)))
                     else
                       finished
                         (sessions_delete userId
                            (sendMessage userId
                               ''Sorry, there was a problem replacing your appointment. The slot might have been taken. Please try scheduling again.''
                               w1))
                 | (Thrown, w1) \<Rightarrow>
                     finished
                       (sessions_delete userId
                          (sendMessage userId
                             ''Sorry, there was an error replacing your appointment. Please try again later.''
                             w1)))
         | _ \<Rightarrow> thrown w)
      else
        (let s1 = s\<lparr>state := ''meeting_offer'',
                     data := delete_prop ''existingAppointmentDate''
                               (delete_prop ''pendingSlot'' (data s))\<rparr>
         in send_prompt e userId (state s1) (data s1)
              (sessions_set userId s1
                 (sendMessage userId
                    ''Okay, the new appointment slot was not scheduled. Your existing appointment remains.''
                    w))))"

text \<open>
  The admission part of \<^verbatim>\<open>awaiting_continue\<close>: the data of the session is reset and the
  database is asked for the student, the appointments and the stored details.
\<close>

definition find_student_id :: "env \<Rightarrow> string \<Rightarrow> world \<Rightarrow> int option \<times> world" where
  "find_student_id e phone w =
     (case db_request e w of
        (failed, w1) \<Rightarrow>
          if failed then (None, w1)
          else (case filter (\<lambda>c. mobile_matches c phone) (contacts w1) of
                  [] \<Rightarrow> (None, w1)
                | c # _ \<Rightarrow> (Some (ci_student_id c), w1)))"

definition appointments_prompt :: "env \<Rightarrow> appointment list \<Rightarrow> string" where
  "appointments_prompt e existingAppointments =
     ''I found the following upcoming appointment(s) scheduled for your number:'' @ nl
     @ js_join nl
         (map (\<lambda>(i, app). show_nat (i + 1) @ ''. '' @ toLocaleString e (Some (ap_appdate app * 1000)))
              (zip [0 ..< length existingAppointments] existingAppointments))
     @ nl @ nl @ ''Would you like to book another appointment? (Yes/No)''"

definition js_assign :: "jsobj \<Rightarrow> jsobj \<Rightarrow> jsobj" where
  "js_assign base extra = fold (\<lambda>kv obj. set_prop (fst kv) (snd kv) obj) extra base"

definition resume_known_student ::
  "env \<Rightarrow> string \<Rightarrow> session \<Rightarrow> jsobj \<Rightarrow> int \<Rightarrow> world \<Rightarrow> hres" where
  "resume_known_student e userId s d0 studentId w =
     (case getAllFutureAppointments e (JNum studentId) w of
        (existingAppointments, w1) \<Rightarrow>
          if length existingAppointments > 0 then
            finished
              (sendMessage userId (appointments_prompt e existingAppointments)
                 (sessions_set userId
                    (s\<lparr>data := set_prop ''existingAppointments'' (JRows existingAppointments) d0,
                       checkedExistingAppointment := True,
                       state := ''confirm_book_another_appointment''\<rparr>) w1))
          else
            (case db_request e w1 of
               (failed, w2) \<Rightarrow>
                 if failed then
                   thrown (sessions_set userId
                             (s\<lparr>data := d0, checkedExistingAppointment := True\<rparr>) w2)
                 else
                   (case existing_data_by_id w2 studentId of
                      (st, c) # _ \<Rightarrow>
                        (let d1 = js_assign d0 (found_fields e st c) in
                         finished
                           (sendMessage userId (found_message_data e d1)
                              (sessions_set userId
                                 (s\<lparr>data := d1, checkedExistingAppointment := True,
                                    checkedExistingData := True,
                                    state := ''confirm_existing_data''\<rparr>) w2)))
                    | [] \<Rightarrow>
                        (let s1 = s\<lparr>data := d0, checkedExistingAppointment := True,
                                     checkedExistingData := True,
                                     state := ''admission_displayname''\<rparr>
                         in send_prompt e userId (state s1) (data s1)
                              (sessions_set userId s1 w2)))))"

definition resume_admission :: "env \<Rightarrow> string \<Rightarrow> session \<Rightarrow> world \<Rightarrow> hres" where
  "resume_admission e userId s w =
     (case find_student_id e (phone_of userId) w of
        (found, w1) \<Rightarrow>
          (let d0 = (case found of None \<Rightarrow> [] | Some i \<Rightarrow> [(''studentId'', JNum i)]);
               fresh = s\<lparr>data := d0, checkedExistingAppointment := True,
                          checkedExistingData := True, state := ''admission_displayname''\<rparr>
           in case found of
                None \<Rightarrow> send_prompt e userId (state fresh) (data fresh) (sessions_set userId fresh w1)
              | Some studentId \<Rightarrow>
                  if studentId \<noteq> 0 then resume_known_student e userId s d0 studentId w1
                  else send_prompt e userId (state fresh) (data fresh)
                         (sessions_set userId fresh w1)))"

definition answer_text :: "env \<Rightarrow> string \<Rightarrow> string" where
  "answer_text e userMessage =
     (let answer = answerQuestion e userMessage (inputContent e) in
      if answer = [] then ''Could you please rephrase your question?'' else answer)"

definition awaiting_continue :: "env \<Rightarrow> string \<Rightarrow> string \<Rightarrow> session \<Rightarrow> world \<Rightarrow> hres" where
  "awaiting_continue e userId userMessage s w =
     (let intent = determineIntent e userMessage (state s) in
      if intent = ''AskFAQ'' then
        send_prompt e userId (state s) (data s) (sendMessage userId (answer_text e userMessage) w)
      else if intent = ''AdmissionFlow'' then resume_admission e userId s w
      else other_intent e userId w)"

text \<open>
  The \<^verbatim>\<open>default\<close> branch of the \<^verbatim>\<open>switch\<close>, taken for a state that none of the
  \<^verbatim>\<open>case\<close> labels names. A question is answered after the state is saved in
  \<^verbatim>\<open>previousState\<close>.
\<close>

definition admissionStates :: "string list" where
  "admissionStates =
     [''admission_displayname'', ''admission_email'', ''admission_grade'', ''admission_semester'',
      ''admission_referral'', ''admission_confirm'', ''admission_choose_detail_to_change'',
      ''update_detail'']"

definition default_state :: "env \<Rightarrow> string \<Rightarrow> string \<Rightarrow> session \<Rightarrow> world \<Rightarrow> hres" where
  "default_state e userId userMessage s w =
     (let intent = determineIntent e userMessage (state s) in
      if intent = ''AdmissionFlow'' \<and> state s \<in> set admissionStates then
        send_prompt e userId (state s) (data s) w
      else if intent = ''AskFAQ'' then
        (let s1 = (if state s \<noteq> []
                   then s\<lparr>previousState := Some (state s), state := ''awaiting_continue''\<rparr>
                   else \<lparr>state = ''awaiting_continue'', previousState = None,
                         intentDisabled = False, checkedExistingData = False,
                         checkedExistingAppointment = False, data = []\<rparr>)
         in finished
              (sendMessage userId ''How can I help you today?''
                 (sendMessage userId (answer_text e userMessage) (sessions_set userId s1 w))))
      else other_intent e userId w)"

definition handleSession :: "env \<Rightarrow> string \<Rightarrow> string \<Rightarrow> session \<Rightarrow> world \<Rightarrow> hres" where
  "handleSession e userId userMessage s w =
     (if intentDisabled s then
        finished
          (sendMessage userId
             ''Your admission process is complete. Let us know if you need anything else.'' w)
      else if toLowerCase userMessage = ''exit'' then
        finished
          (sendMessage userId ''Admission process cancelled. You can start again anytime.''
             (sessions_delete userId w))
      else if state s = ''confirm_book_another_appointment'' then
        confirm_book_another_appointment e userId userMessage s w
      else if state s = ''confirm_existing_data'' then
        confirm_existing_data e userId userMessage s w
      else if state s \<in> set [''admission_displayname'', ''admission_email'', ''admission_grade'',
                              ''admission_semester'', ''admission_referral''] then
        field_collection e userId userMessage s w
      else if state s = ''check_existing_appointment'' then
        check_existing_appointment e userId userMessage s w
      else if state s = ''admission_confirm'' then
        admission_confirm e userId userMessage s w
      else if state s = ''admission_choose_detail_to_change'' then
        admission_choose_detail_to_change e userId userMessage s w
      else if state s = ''update_detail'' then
        update_detail e userId userMessage s w
      else if state s = ''meeting_offer'' then
        meeting_offer e userId userMessage s w
      else if state s = ''meeting_show_slots'' then
        meeting_show_slots e userId userMessage s w
      else if state s = ''confirm_replace_appointment'' then
        confirm_replace_appointment e userId userMessage s w
      else if state s = ''awaiting_continue'' then
        awaiting_continue e userId userMessage s w
      else default_state e userId userMessage s w)"

subsection \<open>The message handler\<close>

record message =
  msg_from :: string
  msg_body :: "nat list"
  msg_timestamp :: int

text \<open>
  \<^verbatim>\<open>isRateLimited\<close> (utils/rateLimiter.js): at most 100 messages are counted per cache
  entry, and every counted message renews the entry for 60 seconds.
\<close>

definition isRateLimited :: "string \<Rightarrow> world \<Rightarrow> bool \<times> world" where
  "isRateLimited userId w =
     (let count = (case map_of (rate_cache w) userId of
                     None \<Rightarrow> 0
                   | Some (c, expiry) \<Rightarrow> if now w \<le> expiry then c else 0)
      in if count \<ge> 100 then (True, w)
         else (False,
               w\<lparr>rate_cache := AList.update userId (count + 1, now w + 60000) (rate_cache w)\<rparr>))"

text \<open>\<^verbatim>\<open>saveUserMessage\<close> (models/userMessageModel.js) catches a rejected insertion.\<close>

definition saveUserMessage :: "env \<Rightarrow> string \<Rightarrow> string \<Rightarrow> string \<Rightarrow> world \<Rightarrow> world" where
  "saveUserMessage e userId msg timestamp w =
     (case db_request e w of
        (failed, w1) \<Rightarrow>
          if failed then w1
          else w1\<lparr>user_messages := user_messages w1 @ [(userId, msg, timestamp)]\<rparr>)"

text \<open>\<^verbatim>\<open>logInteraction\<close> (utils/logger.js) sanitizes the text once more.\<close>

definition logInteraction :: "string \<Rightarrow> string \<Rightarrow> string \<Rightarrow> world \<Rightarrow> world" where
  "logInteraction userId userMessage timestamp w =
     (let sanitized = units_to_string (sanitizeInput (string_to_units userMessage)) in
      w\<lparr>log_file := log_file w @ [timestamp @ '' - '' @ userId @ '' => '' @ sanitized @ nl]\<rparr>)"

text \<open>\<^verbatim>\<open>new Date().toISOString().slice(0, 19).replace('T', ' ')\<close>\<close>

fun replace_first :: "char \<Rightarrow> char \<Rightarrow> string \<Rightarrow> string" where
  "replace_first a b [] = []"
| "replace_first a b (c # cs) = (if c = a then b # cs else c # replace_first a b cs)"

definition timestamp_now :: "env \<Rightarrow> world \<Rightarrow> string" where
  "timestamp_now e w = replace_first (CHR ''T'') (CHR '' '') (take 19 (toISOString e (now w)))"

definition new_session :: "string \<Rightarrow> jsobj \<Rightarrow> session" where
  "new_session st d =
     \<lparr>state = st, previousState = None, intentDisabled = False, checkedExistingData = False,
      checkedExistingAppointment = False, data = d\<rparr>"

text \<open>
  A message about admission from a user without a session. The new session is stored at
  the end, so an exception on the way stores nothing.
\<close>

definition start_known_student :: "env \<Rightarrow> string \<Rightarrow> int \<Rightarrow> world \<Rightarrow> hres" where
  "start_known_student e userId studentId w =
     (let newSession = new_session ''admission_displayname'' [(''studentId'', JNum studentId)] in
      case getAllFutureAppointments e (JNum studentId) w of
        (existingAppointments, w1) \<Rightarrow>
          if length existingAppointments > 0 then
            finished
              (sendMessage userId (appointments_prompt e existingAppointments)
                 (sessions_set userId
                    (newSession\<lparr>state := ''confirm_book_another_appointment'',
                       checkedExistingAppointment := True,
                       data := set_prop ''existingAppointments'' (JRows existingAppointments)
                                 (data newSession)\<rparr>) w1))
          else
            (case db_request e w1 of
               (failed, w2) \<Rightarrow>
                 if failed then thrown w2
                 else
                   (case existing_data_by_id w2 studentId of
                      (st, c) # _ \<Rightarrow>
                        (let d1 = (''studentId'', JNum studentId) # found_fields e st c in
                         finished
                           (sendMessage userId (found_message_data e d1)
                              (sessions_set userId
                                 (newSession\<lparr>checkedExistingAppointment := True, data := d1,
                                    state := ''confirm_existing_data'',
                                    checkedExistingData := True\<rparr>) w2)))
                    | [] \<Rightarrow>
                        (let s1 = newSession\<lparr>checkedExistingAppointment := True,
                                     state := ''admission_displayname'',
                                     checkedExistingData := True\<rparr>
                         in case getPromptForState e (state s1) (data s1) of
                              Thrown \<Rightarrow> thrown w2
                            | Returned promptToSend \<Rightarrow>
                                finished
                                  (sendMessage userId
                                     (if promptToSend \<noteq> [] then promptToSend
                                      else ''Sorry, something went wrong. Please try again.'')
                                     (sessions_set userId s1 w2))))))"

definition start_admission :: "env \<Rightarrow> string \<Rightarrow> world \<Rightarrow> hres" where
  "start_admission e userId w =
     (case find_student_id e (phone_of userId) w of
        (found, w1) \<Rightarrow>
          (let d0 = (case found of None \<Rightarrow> [] | Some i \<Rightarrow> [(''studentId'', JNum i)]);
               fresh = (new_session ''admission_displayname'' d0)
                         \<lparr>checkedExistingAppointment := True, checkedExistingData := True\<rparr>;
               start_fresh =
                 (case getPromptForState e (state fresh) (data fresh) of
                    Thrown \<Rightarrow> thrown w1
                  | Returned promptToSend \<Rightarrow>
                      finished
                        (sendMessage userId
                           (if promptToSend \<noteq> [] then promptToSend
                            else ''Sorry, something went wrong. Please try again.'')
                           (sessions_set userId fresh w1)))
           in case found of
                None \<Rightarrow> start_fresh
              | Some studentId \<Rightarrow>
                  if studentId \<noteq> 0 then start_known_student e userId studentId w1
                  else start_fresh))"

definition without_session :: "env \<Rightarrow> string \<Rightarrow> string \<Rightarrow> string \<Rightarrow> world \<Rightarrow> hres" where
  "without_session e userId userMessage intent w =
     (if intent = ''AdmissionFlow'' then start_admission e userId w
      else if intent = ''AskFAQ'' then finished (sendMessage userId (answer_text e userMessage) w)
      else
        (case getUserInfo e userId w of
           (Thrown, w1) \<Rightarrow> thrown w1
         | (Returned userInfo, w1) \<Rightarrow>
             finished
               (sendMessage userId ''How can I help you today?''
                  (sendMessage userId
                     (if userInfo \<noteq> None then ''Hello! Welcome back.''
                      else ''Hello! You can ask about admissions or any general question about the school.'')
                     w1))))"

text \<open>
  \<^verbatim>\<open>client.on('message', ...)\<close>. The body is sanitized first; everything after works on
  the sanitized text. The outer \<^verbatim>\<open>try\<close> swallows every exception, so the handler
  always ends with a world.
\<close>

definition on_message :: "env \<Rightarrow> message \<Rightarrow> world \<Rightarrow> world" where
  "on_message e msg w =
     (let userId = msg_from msg;
          userMessage = units_to_string (sanitizeInput (msg_body msg));
          timestamp = timestamp_now e w
      in if msg_timestamp msg * 1000 < botStartTime e then w
         else
           (case isRateLimited userId w of
              (limited, w1) \<Rightarrow>
                if limited then sendMessage userId ''You are sending messages too quickly.'' w1
                else
                  (let w2 = logInteraction userId userMessage timestamp
                              (saveUserMessage e userId userMessage timestamp w1);
                       session = sessions_get w2 userId;
                       intent = determineIntent e userMessage
                                  (case session of None \<Rightarrow> [] | Some s \<Rightarrow> state s)
                   in case session of
                        None \<Rightarrow> snd (without_session e userId userMessage intent w2)
                      | Some s \<Rightarrow>
                          if state s \<noteq> [] then snd (handleSession e userId userMessage s w2)
                          else snd (without_session e userId userMessage intent w2))))"

text \<open>Handling a sequence of inbound messages, one after the other.\<close>

fun on_messages :: "env \<Rightarrow> message list \<Rightarrow> world \<Rightarrow> world" where
  "on_messages e [] w = w"
| "on_messages e (m # ms) w = on_messages e ms (on_message e m w)"

text \<open>The states that have a \<^verbatim>\<open>case\<close> label of their own in \<^verbatim>\<open>handleSession\<close>.\<close>

definition case_labels :: "string list" where
  "case_labels =
     [''confirm_book_another_appointment'', ''confirm_existing_data'', ''admission_displayname'',
      ''admission_email'', ''admission_grade'', ''admission_semester'', ''admission_referral'',
      ''check_existing_appointment'', ''admission_confirm'', ''admission_choose_detail_to_change'',
      ''update_detail'', ''meeting_offer'', ''meeting_show_slots'', ''confirm_replace_appointment'',
      ''awaiting_continue'']"

text \<open>
  \<^verbatim>\<open>handleSession\<close> applied to the successive messages of one user, each time to the
  session the store then holds; it stops when the user has no session left.
\<close>

fun handle_messages :: "env \<Rightarrow> string \<Rightarrow> string list \<Rightarrow> world \<Rightarrow> world" where
  "handle_messages e userId [] w = w"
| "handle_messages e userId (m # ms) w =
     (case sessions_get w userId of
        None \<Rightarrow> w
      | Some s \<Rightarrow> handle_messages e userId ms (snd (handleSession e userId m s w)))"

section \<open>The slot list as the specification describes it\<close>

text \<open>
  The second definition of the slot list, following the words of the specification: each
  calendar day of the three-day window that starts tomorrow, kept when its weekday is
  Sunday to Thursday; the half-hour marks from 08:00 up to and excluding 15:00 of each
  kept day; without the candidates not later than the current time and without the
  candidates for which an appointment row exists at that time; in chronological order.
\<close>

definition spec_available_slots :: "world \<Rightarrow> int list" where
  "spec_available_slots w =
     (let tomorrow = start_of_day (now w + ms_per_day) in
      filter (\<lambda>c. c > now w \<and> \<not> list_ex (\<lambda>a. ap_appdate a = c div 1000) (appointments w))
        (concat (map day_candidates
                   (filter (\<lambda>d. getDay d \<le> 4)
                      [tomorrow, tomorrow + ms_per_day, tomorrow + 2 * ms_per_day]))))"

section \<open>Concrete environments, sessions and worlds\<close>

text \<open>
  The inputs at which the theorems below are instantiated. In \<open>env0\<close> the validation
  oracle rejects every input, no intent is recognised, the remote model gives no yes/no
  answer and the database accepts every request.
\<close>

definition env0 :: env where
  "env0 =
     \<lparr>validateInput = (\<lambda>validationType input. ''Please try again.''),
      determineIntent = (\<lambda>userMessage conversation. ''Unknown''),
      answerQuestion = (\<lambda>userQuery fileContent. ''The school day starts at 8.''),
      callOpenAI_yesno = (\<lambda>userMessage. None),
      db_fail = (\<lambda>n. False),
      botStartTime = 0,
      inputContent = [],
      toLocaleDateString = (\<lambda>t. show_int (t div ms_per_day)),
      toLocaleTimeString = (\<lambda>t. show_int (t mod ms_per_day div 60000)),
      toLocaleString = (\<lambda>d. case d of None \<Rightarrow> ''Invalid Date'' | Some t \<Rightarrow> show_int t),
      toISOString = (\<lambda>t. ''1970-01-01T00:00:00.000Z''),
      parseDate = (\<lambda>text. None),
      number_beyond_safe = (\<lambda>n. Some n),
      stringify_guardian = (\<lambda>g. ''{}''),
      stringify_contact = (\<lambda>c. ''{}'')\<rparr>"

definition env_accepts_3 :: env where
  "env_accepts_3 = env0\<lparr>validateInput := (\<lambda>validationType input. ''valid 3'')\<rparr>"



definition env_question :: env where
  "env_question = env0\<lparr>determineIntent := (\<lambda>userMessage conversation. ''AskFAQ'')\<rparr>"

definition env_admission :: env where
  "env_admission = env0\<lparr>determineIntent := (\<lambda>userMessage conversation. ''AdmissionFlow'')\<rparr>"

definition env_db_down :: env where
  "env_db_down = env0\<lparr>db_fail := (\<lambda>n. True)\<rparr>"

definition env_insert_rejected :: env where
  "env_insert_rejected = env0\<lparr>db_fail := (\<lambda>n. n = 4)\<rparr>"

definition world0 :: world where
  "world0 =
     \<lparr>sessions = [], outbox = [], students = [], contacts = [], appointments = [],
      guardians = [], user_messages = [], log_file = [], rate_cache = [], now = 0, db_ops = 0\<rparr>"

definition demo_user :: string where
  "demo_user = ''15551234567@c.us''"

definition world_with :: "session \<Rightarrow> world" where
  "world_with s = world0\<lparr>sessions := [(demo_user, s)]\<rparr>"

definition session_done :: session where
  "session_done = (new_session ''awaiting_continue'' [])\<lparr>intentDisabled := True\<rparr>"


definition session_grade :: session where
  "session_grade =
     new_session ''admission_grade''
       [(''displayname'', JStr ''John Smith''), (''email'', JStr ''john@example.org'')]"

definition session_confirm :: session where
  "session_confirm =
     new_session ''admission_confirm''
       [(''displayname'', JStr ''John Smith''), (''email'', JStr ''john@example.org''),
        (''grade'', JNum 3), (''semester'', JNum 1), (''referral'', JStr ''Friend'')]"

text \<open>Monday 1970-01-05, 09:00, in milliseconds and in seconds.\<close>

definition monday_9 :: int where
  "monday_9 = 378000000"

definition session_replace :: session where
  "session_replace =
     new_session ''confirm_replace_appointment''
       [(''studentId'', JNum 7), (''grade'', JNum 3),
        (''pendingSlot'', JDate (Some monday_9)),
        (''existingAppointmentDate'', JDate (Some 291600000))]"




definition session_unlisted :: session where
  "session_unlisted = new_session ''admission_change_or_cancel'' []"

definition booked_monday_9 :: appointment where
  "booked_monday_9 =
     \<lparr>ap_id = 5, ap_student_id = Some 2, ap_appdate = 378000, ap_time = 378000,
      ap_purpose = ''Admission Inquiry'', ap_host = ''IvyBot'', ap_type = ''Admission'',
      ap_forgrade = Some 4\<rparr>"

definition world_booked :: world where
  "world_booked = world0\<lparr>appointments := [booked_monday_9]\<rparr>"


definition hello_message :: message where
  "hello_message =
     \<lparr>msg_from = demo_user, msg_body = string_to_units ''I want to apply'', msg_timestamp = 11\<rparr>"




section \<open>Evaluation and helper lemmas\<close>

lemmas string_eval =
  toLowerCase_def lower_char_def upper_char_def js_trim_def trim_by_def is_ws_def is_digit_def
  startsWith_def substring_from_def match_digits_def digits_to_int_def digit_val_def
  char_of_def bit_Suc_0_iff

lemma get_prop_set_prop_same [simp]: "get_prop (set_prop k v d) k = v"
  by (simp add: get_prop_def set_prop_def update_conv')

lemma get_prop_set_prop_other [simp]: "k' \<noteq> k \<Longrightarrow> get_prop (set_prop k v d) k' = get_prop d k'"
  by (simp add: get_prop_def set_prop_def update_conv')

lemma exit_step:
  "\<not> intentDisabled s \<Longrightarrow> toLowerCase userMessage = ''exit'' \<Longrightarrow>
   handleSession e userId userMessage s w =
     (Returned (),
      w\<lparr>sessions := AList.delete userId (sessions w),
        outbox := outbox w @ [(userId, ''Admission process cancelled. You can start again anytime.'')]\<rparr>)"
  by (simp add: handleSession_def finished_def sendMessage_def sessions_delete_def)

lemma sessions_get_after_side_effects:
  "sessions_get (logInteraction u m t (saveUserMessage e u m t (snd (isRateLimited u w)))) k = sessions_get w k"
  by (simp add: sessions_get_def logInteraction_def saveUserMessage_def isRateLimited_def Let_def
      db_request_def split: prod.splits option.splits)

lemma on_message_without_session:
  assumes "sessions_get w (msg_from m) = None"
    "\<not> msg_timestamp m * 1000 < botStartTime e"
    "\<not> fst (isRateLimited (msg_from m) w)"
  shows "on_message e m w =
     snd (without_session e (msg_from m) (units_to_string (sanitizeInput (msg_body m)))
            (determineIntent e (units_to_string (sanitizeInput (msg_body m))) [])
            (logInteraction (msg_from m) (units_to_string (sanitizeInput (msg_body m))) (timestamp_now e w)
               (saveUserMessage e (msg_from m) (units_to_string (sanitizeInput (msg_body m))) (timestamp_now e w)
                  (snd (isRateLimited (msg_from m) w)))))"
proof -
  obtain l w1 where r: "isRateLimited (msg_from m) w = (l, w1)" by (cases "isRateLimited (msg_from m) w")
  have g: "sessions_get (logInteraction (msg_from m) (units_to_string (sanitizeInput (msg_body m))) (timestamp_now e w)
               (saveUserMessage e (msg_from m) (units_to_string (sanitizeInput (msg_body m))) (timestamp_now e w) w1)) (msg_from m) = None"
    using sessions_get_after_side_effects [of "msg_from m" _ _ e w "msg_from m"] assms(1) r by simp
  show ?thesis using assms(2,3) r g by (simp add: on_message_def Let_def)
qed

lemma sessions_get_delete: "sessions_get (w\<lparr>sessions := AList.delete k (sessions w), outbox := ob\<rparr>) k = None"
  by (simp add: sessions_get_def delete_conv')

lemma sanitize_hello:
  "units_to_string (sanitizeInput (string_to_units ''I want to apply'')) = ''I want to apply''"
  by (simp add: units_to_string_def sanitizeInput_def string_to_units_def allowed_unit_def ws_unit_def trim_by_def
      char_of_def bit_Suc_0_iff)








lemma handleSession_field_state:
  "state s \<in> set [''admission_displayname'', ''admission_email'', ''admission_grade'',
                    ''admission_semester'', ''admission_referral''] \<Longrightarrow>
   \<not> intentDisabled s \<Longrightarrow> toLowerCase userMessage \<noteq> ''exit'' \<Longrightarrow>
   handleSession e userId userMessage s w = field_collection e userId userMessage s w"
  by (auto simp: handleSession_def)

lemma field_state_tables:
  "validationType_of_state ''admission_displayname'' = ''name''"
  "validationType_of_state ''admission_email'' = ''email''"
  "validationType_of_state ''admission_grade'' = ''grade_level''"
  "validationType_of_state ''admission_semester'' = ''semester''"
  "validationType_of_state ''admission_referral'' = ''referral_source''"
  "store_key ''name'' = ''displayname''"
  "store_key ''email'' = ''email''"
  "store_key ''grade_level'' = ''grade''"
  "store_key ''semester'' = ''semester''"
  "store_key ''referral_source'' = ''referral''"
  "next_state ''admission_displayname'' = ''admission_email''"
  "next_state ''admission_email'' = ''admission_grade''"
  "next_state ''admission_grade'' = ''admission_semester''"
  "next_state ''admission_semester'' = ''admission_referral''"
  "next_state ''admission_referral'' = ''admission_confirm''"
  by (simp_all add: validationType_of_state_def store_key_def storeKeyMapping_def next_state_def)

lemma prompt_never_thrown:
  "st \<noteq> ''update_detail'' \<Longrightarrow> \<exists>p. getPromptForState e st d = Returned p"
  by (simp add: getPromptForState_def)



lemma sessions_get_set: "sessions_get (sessions_set userId s w) userId = Some s"
  by (simp add: sessions_get_def sessions_set_def update_conv')





lemma valid_3_accepted: "isValidValidation ''valid 3''"
  by (simp add: isValidValidation_def js_trim_def trim_by_def toLowerCase_def lower_char_def
      is_ws_def startsWith_def)

lemma valid_3_value:
  "startsWith (toLowerCase ''valid 3'') ''valid ''"
  "first_int_or_null e (js_trim (substring_from 6 ''valid 3'')) = JNum 3"
  by (simp_all add: string_eval first_int_or_null_def to_Number_def)

lemma grade_step:
  assumes "state s = ''admission_grade''" "\<not> intentDisabled s" "toLowerCase userMessage \<noteq> ''exit''"
    "validateInput e ''grade_level'' userMessage = ''valid 3''"
  shows "handleSession e userId userMessage s w =
     (Returned (),
      w\<lparr>sessions := AList.update userId
             (s\<lparr>data := set_prop ''grade'' (JNum 3) (data s), state := ''admission_semester''\<rparr>)
             (sessions w),
        outbox := outbox w @
          [(userId, ''Which semester are you applying for? (1 or 2).'' @ exit_hint)]\<rparr>)"
proof -
  have fs: "state s \<in> set [''admission_displayname'', ''admission_email'', ''admission_grade'',
                    ''admission_semester'', ''admission_referral'']"
    using assms(1) by simp
  have p: "getPromptForState e ''admission_semester'' d =
             Returned (''Which semester are you applying for? (1 or 2).'' @ exit_hint)" for d
    by (simp add: getPromptForState_def)
  show ?thesis
    using assms(1,4)
    by (simp add: handleSession_field_state [OF fs assms(2,3)] field_collection_def
        field_state_tables valid_3_accepted valid_3_value Let_def send_prompt_def p finished_def
        sendMessage_def sessions_set_def)
qed

lemma reject_step:
  assumes "state s \<in> set [''admission_displayname'', ''admission_email'', ''admission_grade'',
                              ''admission_semester'', ''admission_referral'']"
    "\<not> intentDisabled s" "toLowerCase userMessage \<noteq> ''exit''"
    "\<not> isValidValidation (validateInput e (validationType_of_state (state s)) userMessage)"
    "sessions_get w userId = Some s"
  shows "\<exists>p. getPromptForState e (state s) (data s) = Returned p \<and> handleSession e userId userMessage s w =
     (Returned (),
      w\<lparr>outbox := outbox w @ [(userId, validateInput e (validationType_of_state (state s)) userMessage), (userId, p)]\<rparr>)"
proof -
  have "state s \<noteq> ''update_detail''" using assms(1) by auto
  then obtain p where p: "getPromptForState e (state s) (data s) = Returned p"
    using prompt_never_thrown by blast
  have "handleSession e userId userMessage s w =
     (Returned (),
      w\<lparr>outbox := outbox w @ [(userId, validateInput e (validationType_of_state (state s)) userMessage), (userId, p)]\<rparr>)"
    using assms(4,5)
    by (simp add: handleSession_field_state [OF assms(1,2,3)] field_collection_def Let_def
        send_prompt_def p finished_def sendMessage_def sessions_set_def sessions_get_def update_triv)
  with p show ?thesis by blast
qed

lemma window_seconds:
  "(t - 1000) div 1000 = t div 1000 - (1::int)" "(t + 1000) div 1000 = t div 1000 + (1::int)"
  by simp_all

lemma window_count_conflict:
  "(window_count rows (s - 1) (s + 1) > 0) = list_ex (\<lambda>a. \<bar>ap_appdate a - s\<bar> \<le> 1) rows"
  by (induction rows) (auto simp: window_count_def)

lemma fold_max_Max: "ids \<noteq> [] \<Longrightarrow> fold max ids (hd ids) = Max (set ids)"
proof (cases ids)
  case Nil
  then show "ids \<noteq> [] \<Longrightarrow> ?thesis" by simp
next
  case (Cons x xs)
  then show ?thesis using Max.set_eq_fold [of x xs] by simp
qed

lemma next_id_max:
  "ids \<noteq> [] \<Longrightarrow> next_id ids = Max (set ids) + 1" "next_id [] = 1"
  by (simp_all add: next_id_def max_id_def fold_max_Max)

lemma saveAppointment_accepted:
  assumes "\<forall>n. \<not> db_fail e n"
  shows "saveAppointment e studentId (Some t) purpose type forgrade w =
     (if list_ex (\<lambda>a. \<bar>ap_appdate a - t div 1000\<bar> \<le> 1) (appointments w)
      then (Returned False, w\<lparr>db_ops := db_ops w + 4\<rparr>)
      else (Returned True,
            w\<lparr>db_ops := db_ops w + 6,
               appointments := appointments w @
                 [new_appointment (next_id (map ap_id (appointments w))) studentId (t div 1000)
                    purpose type forgrade]\<rparr>))"
  using assms
  by (simp add: saveAppointment_def save_insert_def db_request_def formatDateTimeMySql_def
      window_seconds window_count_conflict [symmetric] Let_def)

lemma save_catch_keeps: "(snd (save_catch e w))\<lparr>db_ops := n\<rparr> = w\<lparr>db_ops := n\<rparr>"
  by (simp add: save_catch_def db_request_def)

lemma save_catch_not_true: "fst (save_catch e w) \<noteq> Returned True"
  by (simp add: save_catch_def db_request_def)

lemma save_insert_keeps:
  "fst (save_insert e studentId slot purpose type forgrade w) \<noteq> Returned True \<Longrightarrow>
   (snd (save_insert e studentId slot purpose type forgrade w))\<lparr>db_ops := n\<rparr> = w\<lparr>db_ops := n\<rparr>"
  by (simp add: save_insert_def save_catch_def db_request_def Let_def split: if_splits)

lemma saveAppointment_keeps:
  "fst (saveAppointment e studentId d purpose type forgrade w) \<noteq> Returned True \<Longrightarrow>
   (snd (saveAppointment e studentId d purpose type forgrade w))\<lparr>db_ops := db_ops w\<rparr> = w"
  apply (cases d)
   apply (simp add: saveAppointment_def save_catch_def db_request_def formatDateTimeMySql_def Let_def)
  apply (simp add: saveAppointment_def formatDateTimeMySql_def Let_def db_request_def save_catch_def
      split: if_splits)
  apply (auto simp: save_insert_def save_catch_def db_request_def Let_def split: if_splits)
  done

lemma saveAppointment_no_connection:
  "db_fail e (db_ops w) \<Longrightarrow>
   saveAppointment e studentId d purpose type forgrade w = (Thrown, w\<lparr>db_ops := Suc (db_ops w)\<rparr>)"
  by (simp add: saveAppointment_def db_request_def)

lemma saveAppointment_returns:
  assumes "\<not> db_fail e (db_ops w)" "\<forall>n. db_fail e n \<longrightarrow> \<not> db_fail e (Suc n)"
  shows "\<exists>b. fst (saveAppointment e studentId (Some t) purpose type forgrade w) = Returned b"
  using assms
  by (auto simp: saveAppointment_def save_insert_def save_catch_def db_request_def
      formatDateTimeMySql_def Let_def)

lemma yes_is_yes: "interpretYesNo e ''yes'' = ''yes''"
  by (simp add: interpretYesNo_def string_eval is_word_char_def Let_def)

lemma filter_empty_list_ex: "(filter P xs = []) = (\<not> list_ex P xs)"
  by (induction xs) auto

lemma check_slots_accepted:
  assumes "\<forall>n. \<not> db_fail e n"
  shows "check_slots e nw cs w acc =
     (acc @ filter (\<lambda>c. c > nw \<and> \<not> list_ex (\<lambda>a. ap_appdate a = c div 1000) (appointments w)) cs,
      w\<lparr>db_ops := db_ops w + length (filter (\<lambda>c. c > nw) cs)\<rparr>)"
  using assms
proof (induction cs arbitrary: w acc)
  case Nil
  then show ?case by simp
next
  case (Cons c cs)
  then show ?case
    by (simp add: slot_is_free_def db_request_def filter_empty_list_ex)
qed

lemma start_of_day_shift:
  "start_of_day (start_of_day t + k * ms_per_day) = start_of_day t + k * ms_per_day"
  by (simp add: start_of_day_def ms_per_day_def)

lemma start_of_day_idem: "start_of_day (start_of_day t) = start_of_day t"
  using start_of_day_shift [of t 0] by simp


lemma tomorrow_after_now: "t < start_of_day (t + ms_per_day)"
proof -
  have 1: "(t + 86400000) div 86400000 = t div 86400000 + (1::int)" by simp
  have 2: "t div 86400000 * 86400000 = t - t mod (86400000::int)"
    by (simp add: minus_mod_eq_div_mult)
  have 3: "t mod 86400000 < (86400000::int)" by simp
  have "start_of_day (t + ms_per_day) = t div 86400000 * 86400000 + 86400000"
    by (simp add: start_of_day_def ms_per_day_def 1 algebra_simps)
  then show ?thesis using 2 3 by linarith
qed

lemma day_candidates_after:
  "list_all (\<lambda>c. start_of_day d < c) (day_candidates d)"
  by (simp add: day_candidates_def)

lemma filter_after:
  fixes m nw :: int
  shows "list_all (\<lambda>c. m < c) cs \<Longrightarrow> nw \<le> m \<Longrightarrow> filter (\<lambda>c. c > nw \<and> P c) cs = filter P cs"
  by (induction cs) auto

lemma day_step_accepted:
  assumes "\<forall>n. \<not> db_fail e n" and "nw \<le> start_of_day current"
  shows "fst (day_step e nw current w acc) =
           acc @ (if getDay current \<le> 4
                  then filter (\<lambda>c. \<not> list_ex (\<lambda>a. ap_appdate a = c div 1000) (appointments w))
                         (day_candidates current)
                  else [])"
    and "appointments (snd (day_step e nw current w acc)) = appointments w"
  using assms filter_after [OF day_candidates_after [of current] assms(2)]
  by (simp_all add: day_step_def check_slots_accepted Let_def getDay_def)

lemma slots_loop_step:
  "current < endDate \<Longrightarrow>
   slots_loop e nw current endDate w acc =
     slots_loop e nw (current + ms_per_day) endDate
       (snd (day_step e nw current w acc)) (fst (day_step e nw current w acc))"
  by (subst slots_loop.simps) simp

lemma slots_loop_stop:
  "\<not> current < endDate \<Longrightarrow> slots_loop e nw current endDate w acc = (acc, w)"
  by (subst slots_loop.simps) simp

lemma getAvailableSlots_accepted:
  assumes ok: "\<forall>n. \<not> db_fail e n"
  shows "fst (getAvailableSlots e grade w) =
     filter (\<lambda>c. \<not> list_ex (\<lambda>a. ap_appdate a = c div 1000) (appointments w))
       (concat (map day_candidates
                  (filter (\<lambda>d. getDay d \<le> 4)
                     [start_of_day (now w + ms_per_day),
                      start_of_day (now w + ms_per_day) + ms_per_day,
                      start_of_day (now w + ms_per_day) + ms_per_day + ms_per_day,
                      start_of_day (now w + ms_per_day) + ms_per_day + ms_per_day + ms_per_day])))"
proof -
  define D where "D = start_of_day (now w + ms_per_day)"
  define D1 where "D1 = D + ms_per_day"
  define D2 where "D2 = D1 + ms_per_day"
  define D3 where "D3 = D2 + ms_per_day"
  define E where "E = start_of_day (D + 3 * ms_per_day) + (ms_per_day - 1)"
  have nD: "now w < D" unfolding D_def by (rule tomorrow_after_now)
  have sd: "start_of_day (D + k * ms_per_day) = D + k * ms_per_day" for k
    unfolding D_def by (rule start_of_day_shift)
  have D1: "D1 = D + 1 * ms_per_day" and D2: "D2 = D + 2 * ms_per_day"
    and D3: "D3 = D + 3 * ms_per_day"
    by (simp_all add: D1_def D2_def D3_def)
  have sd0: "start_of_day D = D" using sd [of 0] by simp
  have sd1: "start_of_day D1 = D1" unfolding D1 by (rule sd)
  have sd2: "start_of_day D2 = D2" unfolding D2 by (rule sd)
  have sd3: "start_of_day D3 = D3" unfolding D3 by (rule sd)
  have E: "E = D3 + (ms_per_day - 1)" unfolding E_def D3 by (simp only: sd)
  have le0: "now w \<le> start_of_day D" using nD by (simp add: sd0)
  have le1: "now w \<le> start_of_day D1" unfolding sd1 using nD by (simp add: D1 ms_per_day_def)
  have le2: "now w \<le> start_of_day D2" unfolding sd2 using nD by (simp add: D2 ms_per_day_def)
  have le3: "now w \<le> start_of_day D3" unfolding sd3 using nD by (simp add: D3 ms_per_day_def)
  have c0: "D < E" and c1: "D1 < E" and c2: "D2 < E" and c3: "D3 < E"
    and c4: "\<not> D3 + ms_per_day < E"
    by (simp_all add: E D1 D2 D3 ms_per_day_def)
  let ?free = "\<lambda>c. \<not> list_ex (\<lambda>a. ap_appdate a = c div 1000) (appointments w)"
  let ?day = "\<lambda>d. if getDay d \<le> 4 then filter ?free (day_candidates d) else []"
  define w1 where "w1 = snd (day_step e (now w) D w [])"
  define a1 where "a1 = fst (day_step e (now w) D w [])"
  define w2 where "w2 = snd (day_step e (now w) D1 w1 a1)"
  define a2 where "a2 = fst (day_step e (now w) D1 w1 a1)"
  define w3 where "w3 = snd (day_step e (now w) D2 w2 a2)"
  define a3 where "a3 = fst (day_step e (now w) D2 w2 a2)"
  define w4 where "w4 = snd (day_step e (now w) D3 w3 a3)"
  define a4 where "a4 = fst (day_step e (now w) D3 w3 a3)"
  have p1: "appointments w1 = appointments w" "a1 = ?day D"
    unfolding w1_def a1_def by (simp_all add: day_step_accepted [OF ok le0])
  have p2: "appointments w2 = appointments w" "a2 = a1 @ ?day D1"
    unfolding w2_def a2_def by (simp_all add: day_step_accepted [OF ok le1] p1(1))
  have p3: "appointments w3 = appointments w" "a3 = a2 @ ?day D2"
    unfolding w3_def a3_def by (simp_all add: day_step_accepted [OF ok le2] p2(1))
  have p4: "a4 = a3 @ ?day D3"
    unfolding w4_def a4_def by (simp_all add: day_step_accepted [OF ok le3] p3(1))
  have "slots_loop e (now w) D E w [] = slots_loop e (now w) D1 E w1 a1"
    unfolding w1_def a1_def D1_def by (rule slots_loop_step [OF c0])
  also have "\<dots> = slots_loop e (now w) D2 E w2 a2"
    unfolding w2_def a2_def D2_def by (rule slots_loop_step [OF c1])
  also have "\<dots> = slots_loop e (now w) D3 E w3 a3"
    unfolding w3_def a3_def D3_def by (rule slots_loop_step [OF c2])
  also have "\<dots> = slots_loop e (now w) (D3 + ms_per_day) E w4 a4"
    unfolding w4_def a4_def by (rule slots_loop_step [OF c3])
  also have "\<dots> = (a4, w4)" by (rule slots_loop_stop [OF c4])
  finally have loop: "slots_loop e (now w) D E w [] = (a4, w4)" .
  have "getAvailableSlots e grade w = slots_loop e (now w) D E w []"
    by (simp add: getAvailableSlots_def Let_def D_def [symmetric] sd0 E_def)
  then have "fst (getAvailableSlots e grade w) = a4" by (simp add: loop)
  also have "\<dots> = filter ?free (concat (map day_candidates (filter (\<lambda>d. getDay d \<le> 4) [D, D1, D2, D3])))"
    by (simp add: p4 p3 p2 p1)
  finally show ?thesis by (simp add: D_def D1_def D2_def D3_def)
qed

lemma handleSession_admission_confirm:
  "state s = ''admission_confirm'' \<Longrightarrow> \<not> intentDisabled s \<Longrightarrow>
   toLowerCase userMessage \<noteq> ''exit'' \<Longrightarrow>
   handleSession e userId userMessage s w = admission_confirm e userId userMessage s w"
  by (simp add: handleSession_def)

lemma handleSession_default:
  "state s \<notin> set case_labels \<Longrightarrow> \<not> intentDisabled s \<Longrightarrow>
   toLowerCase userMessage \<noteq> ''exit'' \<Longrightarrow>
   handleSession e userId userMessage s w = default_state e userId userMessage s w"
  by (simp add: handleSession_def case_labels_def)

lemma handleSession_awaiting_continue:
  "state s = ''awaiting_continue'' \<Longrightarrow> \<not> intentDisabled s \<Longrightarrow>
   toLowerCase userMessage \<noteq> ''exit'' \<Longrightarrow>
   handleSession e userId userMessage s w = awaiting_continue e userId userMessage s w"
  by (simp add: handleSession_def)

lemma sessions_get_prompt_and_keep:
  "sessions_get (snd (prompt_and_keep e userId s1 w)) userId = Some s1"
  by (simp add: prompt_and_keep_def send_prompt_def finished_def thrown_def sendMessage_def
      sessions_get_set split: outcome.splits)

lemma sessions_persist_update: "sessions (snd (persist_update e userId s w)) = sessions w"
  by (simp add: persist_update_def db_request_def Let_def)

lemma sessions_persist_insert: "sessions (snd (persist_insert e userId s w)) = sessions w"
  by (simp add: persist_insert_def db_request_def Let_def)

lemma sessions_get_persist_failed: "sessions_get (snd (persist_failed userId w)) userId = None"
  by (simp add: persist_failed_def finished_def sendMessage_def sessions_delete_def
      sessions_get_def delete_conv')

lemma sessions_get_other_intent:
  "sessions_get (snd (other_intent e userId w)) userId = None
   \<or> sessions_get (snd (other_intent e userId w)) userId = sessions_get w userId"
  by (auto simp: other_intent_def getUserInfo_def db_request_def Let_def finished_def thrown_def
      sendMessage_def sessions_delete_def sessions_get_def delete_conv'
      split: list.splits)

lemma js_String_ignores_intent:
  "js_String (e\<lparr>determineIntent := f\<rparr>) v = js_String e v"
  by (cases v) (simp_all add: js_String_def)

lemma getPromptForState_ignores_intent:
  "getPromptForState (e\<lparr>determineIntent := f\<rparr>) st d = getPromptForState e st d"
  unfolding getPromptForState_def js_String_ignores_intent by (rule refl)

lemma db_request_ignores_intent:
  "db_request (e\<lparr>determineIntent := f\<rparr>) w = db_request e w"
  by (simp add: db_request_def)

lemma interpretYesNo_ignores_intent:
  "interpretYesNo (e\<lparr>determineIntent := f\<rparr>) m = interpretYesNo e m"
proof -
  have sel: "callOpenAI_yesno (e\<lparr>determineIntent := f\<rparr>) = callOpenAI_yesno e" by simp
  show ?thesis unfolding interpretYesNo_def sel by (rule refl)
qed

lemma persist_ignores_intent:
  "persist_update (e\<lparr>determineIntent := f\<rparr>) userId s w = persist_update e userId s w"
  "persist_insert (e\<lparr>determineIntent := f\<rparr>) userId s w = persist_insert e userId s w"
  "prompt_and_keep (e\<lparr>determineIntent := f\<rparr>) userId s w = prompt_and_keep e userId s w"
  unfolding persist_update_def persist_insert_def prompt_and_keep_def send_prompt_def
    db_request_ignores_intent getPromptForState_ignores_intent
  by (rule refl)+

lemma admission_confirm_ignores_intent:
  "admission_confirm (e\<lparr>determineIntent := f\<rparr>) userId userMessage s w =
   admission_confirm e userId userMessage s w"
  unfolding admission_confirm_def persist_ignores_intent interpretYesNo_ignores_intent
  by (rule refl)

lemma admission_confirm_result:
  assumes stored: "sessions_get w userId = Some s"
  shows "case sessions_get (snd (admission_confirm e userId userMessage s w)) userId of
           None \<Rightarrow> True
         | Some s' \<Rightarrow>
             previousState s' = previousState s \<and> intentDisabled s' = intentDisabled s
             \<and> (state s' = state s \<or> state s' = ''meeting_offer''
                  \<or> state s' = ''admission_choose_detail_to_change'')"
proof (cases "toLowerCase (interpretYesNo e userMessage) = ''yes''")
  case yes: True
  show ?thesis
  proof (cases "truthy (get_prop (data s) ''studentId'')")
    case True
    obtain ok w1 where pu: "persist_update e userId s w = (ok, w1)"
      by (cases "persist_update e userId s w")
    have "admission_confirm e userId userMessage s w =
            (if ok then prompt_and_keep e userId (s\<lparr>state := ''meeting_offer''\<rparr>) w1
             else persist_failed userId w1)"
      using yes True pu by (simp add: admission_confirm_def Let_def)
    then show ?thesis
      by (cases ok) (simp_all add: sessions_get_prompt_and_keep sessions_get_persist_failed)
  next
    case False
    obtain r w1 where pi: "persist_insert e userId s w = (r, w1)"
      by (cases "persist_insert e userId s w")
    show ?thesis
    proof (cases r)
      case None
      have "admission_confirm e userId userMessage s w = persist_failed userId w1"
        using yes False pi None by (simp add: admission_confirm_def Let_def)
      then show ?thesis by (simp add: sessions_get_persist_failed)
    next
      case (Some newStudentId)
      have "admission_confirm e userId userMessage s w =
              prompt_and_keep e userId
                (s\<lparr>data := set_prop ''studentId'' (JNum newStudentId) (data s),
                   state := ''meeting_offer''\<rparr>) w1"
        using yes False pi Some by (simp add: admission_confirm_def Let_def)
      then show ?thesis by (simp add: sessions_get_prompt_and_keep)
    qed
  qed
next
  case notyes: False
  show ?thesis
  proof (cases "interpretYesNo e userMessage = ''no''")
    case True
    have "admission_confirm e userId userMessage s w =
            prompt_and_keep e userId (s\<lparr>state := ''admission_choose_detail_to_change''\<rparr>) w"
      using notyes True by (simp add: admission_confirm_def Let_def)
    then show ?thesis by (simp add: sessions_get_prompt_and_keep)
  next
    case False
    have "admission_confirm e userId userMessage s w =
            finished (sendMessage userId
              ''I did not understand. Are all details correct? (Yes/No)'' w)"
      using notyes False by (simp add: admission_confirm_def Let_def)
    then show ?thesis
      using stored by (simp add: finished_def sendMessage_def sessions_get_def)
  qed
qed

lemma default_state_question:
  assumes "state s \<noteq> []" "determineIntent e userMessage (state s) = ''AskFAQ''"
  shows "default_state e userId userMessage s w =
     (Returned (),
      w\<lparr>sessions := AList.update userId
             (s\<lparr>previousState := Some (state s), state := ''awaiting_continue''\<rparr>) (sessions w),
        outbox := outbox w @
          [(userId, answer_text e userMessage), (userId, ''How can I help you today?'')]\<rparr>)"
  using assms
  by (simp add: default_state_def Let_def finished_def sendMessage_def sessions_set_def)

lemma awaiting_continue_other:
  assumes "determineIntent e userMessage (state s) \<noteq> ''AskFAQ''"
    "determineIntent e userMessage (state s) \<noteq> ''AdmissionFlow''"
  shows "awaiting_continue e userId userMessage s w = other_intent e userId w"
  using assms by (simp add: awaiting_continue_def Let_def)


subsection \<open>Changing a detail\<close>










section \<open>The global rules of \<^verbatim>\<open>handleSession\<close>\<close>

text \<open>
  Claim C5. For a session with \<open>intentDisabled\<close> set, handling any inbound message sends
  the completion acknowledgment and does nothing else: the result is the world before
  with that one message added to the outbox, so the session, its state and data, the
  session store and every table of the database are as they were.
\<close>

theorem intentDisabled_only_acknowledges:
  "intentDisabled s \<Longrightarrow>
   handleSession e userId userMessage s w =
     (Returned (),
      w\<lparr>outbox := outbox w @
            [(userId, ''Your admission process is complete. Let us know if you need anything else.'')]\<rparr>)"
  by (simp add: handleSession_def finished_def sendMessage_def)

theorem intentDisabled_only_acknowledges_witness:
  "intentDisabled session_done \<and>
   handleSession env0 demo_user ''exit'' session_done (world_with session_done) =
     (Returned (),
      world0\<lparr>sessions := [(demo_user, session_done)],
        outbox := [(demo_user, ''Your admission process is complete. Let us know if you need anything else.'')]\<rparr>)"
  using intentDisabled_only_acknowledges [of session_done env0 demo_user "''exit''" "world_with session_done"]
  by (simp add: session_done_def world_with_def world0_def)

text \<open>
  Claim C4, as stated, fails for a session with \<open>intentDisabled\<close> set: the check of that
  flag stands before the check of the keyword, and the session stays in the store.
\<close>

theorem exit_ignored_when_intentDisabled:
  "toLowerCase ''exit'' = ''exit'' \<and>
   sessions_get (snd (handleSession env0 demo_user ''exit'' session_done (world_with session_done)))
     demo_user = Some session_done"
  by (simp add: handleSession_def finished_def sendMessage_def sessions_get_def string_eval
      session_done_def world_with_def world0_def)

text \<open>
  Claim C4, amended. For every session whose \<open>intentDisabled\<close> flag is not set, in any
  state, a message that equals \<^verbatim>\<open>exit\<close> up to case deletes the session from the store and
  sends the cancellation acknowledgment, whatever the state-specific handling would do;
  the next message of that user (not older than the bot, not rate-limited) is then
  handled as the message of a user without a session.
\<close>

theorem exit_deletes_session:
  assumes "\<not> intentDisabled s" and "toLowerCase userMessage = ''exit''"
    and "msg_from m = userId" and "\<not> msg_timestamp m * 1000 < botStartTime e"
    and "\<not> fst (isRateLimited userId (snd (handleSession e userId userMessage s w)))"
  shows "handleSession e userId userMessage s w =
           (Returned (),
            w\<lparr>sessions := AList.delete userId (sessions w),
              outbox := outbox w @
                [(userId, ''Admission process cancelled. You can start again anytime.'')]\<rparr>)
         \<and> sessions_get (snd (handleSession e userId userMessage s w)) userId = None
         \<and> on_message e m (snd (handleSession e userId userMessage s w)) =
             snd (without_session e userId (units_to_string (sanitizeInput (msg_body m)))
                    (determineIntent e (units_to_string (sanitizeInput (msg_body m))) [])
                    (logInteraction userId (units_to_string (sanitizeInput (msg_body m)))
                       (timestamp_now e (snd (handleSession e userId userMessage s w)))
                       (saveUserMessage e userId (units_to_string (sanitizeInput (msg_body m)))
                          (timestamp_now e (snd (handleSession e userId userMessage s w)))
                          (snd (isRateLimited userId (snd (handleSession e userId userMessage s w)))))))"
proof -
  let ?w' = "snd (handleSession e userId userMessage s w)"
  have step: "handleSession e userId userMessage s w =
           (Returned (),
            w\<lparr>sessions := AList.delete userId (sessions w),
              outbox := outbox w @
                [(userId, ''Admission process cancelled. You can start again anytime.'')]\<rparr>)"
    using assms(1,2) by (rule exit_step)
  have gone: "sessions_get ?w' userId = None"
    by (simp add: step sessions_get_delete)
  have "sessions_get ?w' (msg_from m) = None" "\<not> fst (isRateLimited (msg_from m) ?w')"
    using gone assms(3,5) by simp_all
  from on_message_without_session [OF this(1) assms(4) this(2)]
  show ?thesis using step gone assms(3) by simp
qed

theorem exit_deletes_session_witness:
  "\<not> intentDisabled session_grade \<and> toLowerCase ''Exit'' = ''exit''
   \<and> msg_from hello_message = demo_user
   \<and> \<not> msg_timestamp hello_message * 1000 < botStartTime env_admission
   \<and> \<not> fst (isRateLimited demo_user
               (snd (handleSession env_admission demo_user ''Exit'' session_grade (world_with session_grade))))
   \<and> handleSession env_admission demo_user ''Exit'' session_grade (world_with session_grade) =
        (Returned (),
         world0\<lparr>outbox := [(demo_user, ''Admission process cancelled. You can start again anytime.'')]\<rparr>)
   \<and> sessions_get (snd (handleSession env_admission demo_user ''Exit'' session_grade
                           (world_with session_grade))) demo_user = None
   \<and> sessions_get (on_message env_admission hello_message
                      (snd (handleSession env_admission demo_user ''Exit'' session_grade
                              (world_with session_grade)))) demo_user =
       Some ((new_session ''admission_displayname'' [])
               \<lparr>checkedExistingAppointment := True, checkedExistingData := True\<rparr>)"
proof -
  have h1: "\<not> intentDisabled session_grade" by (simp add: session_grade_def new_session_def)
  have h2: "toLowerCase ''Exit'' = ''exit''" by (simp add: string_eval)
  have h3: "msg_from hello_message = demo_user" by (simp add: hello_message_def)
  have h4: "\<not> msg_timestamp hello_message * 1000 < botStartTime env_admission"
    by (simp add: hello_message_def env_admission_def env0_def)
  have step: "handleSession env_admission demo_user ''Exit'' session_grade (world_with session_grade) =
        (Returned (),
         world0\<lparr>outbox := [(demo_user, ''Admission process cancelled. You can start again anytime.'')]\<rparr>)"
    using exit_step [OF h1 h2, of env_admission demo_user "world_with session_grade"]
    by (simp add: world_with_def world0_def)
  have h5: "\<not> fst (isRateLimited demo_user
               (snd (handleSession env_admission demo_user ''Exit'' session_grade (world_with session_grade))))"
    by (simp add: step isRateLimited_def world0_def)
  note main = exit_deletes_session [OF h1 h2 h3 h4 h5]
  note main3 = main [unfolded step snd_conv, THEN conjunct2, THEN conjunct2]
  have next_msg: "sessions_get (on_message env_admission hello_message
                      (snd (handleSession env_admission demo_user ''Exit'' session_grade
                              (world_with session_grade)))) demo_user =
       Some ((new_session ''admission_displayname'' [])
               \<lparr>checkedExistingAppointment := True, checkedExistingData := True\<rparr>)"
    apply (simp only: step snd_conv main3)
    apply (simp add: hello_message_def sanitize_hello without_session_def env_admission_def env0_def
        start_admission_def find_student_id_def db_request_def logInteraction_def saveUserMessage_def
        isRateLimited_def world0_def Let_def getPromptForState_def finished_def sendMessage_def
        sessions_set_def sessions_get_def new_session_def demo_user_def)
    done
  note gone = main [THEN conjunct2, THEN conjunct1]
  show ?thesis by (intro conjI h1 h2 h3 h4 h5 step gone next_msg)
qed

section \<open>The field-collection states\<close>

text \<open>
  Claim C7. In state \<^verbatim>\<open>admission_grade\<close>, when the validation oracle answers
  \<^verbatim>\<open>valid 3\<close> (acceptance with the normalized value 3), the handler stores the integer
  3 under \<^verbatim>\<open>grade\<close>, taken from the first run of digits of the normalized value, moves
  the session to \<^verbatim>\<open>admission_semester\<close> and sends the prompt of that state.
\<close>

theorem grade_three_is_stored_as_integer:
  assumes "state s = ''admission_grade''" and "\<not> intentDisabled s"
    and "toLowerCase userMessage \<noteq> ''exit''"
    and "validateInput e ''grade_level'' userMessage = ''valid 3''"
  shows "\<exists>s'. sessions_get (snd (handleSession e userId userMessage s w)) userId = Some s'
           \<and> get_prop (data s') ''grade'' = JNum 3
           \<and> state s' = ''admission_semester''
           \<and> s' = s\<lparr>data := set_prop ''grade'' (JNum 3) (data s), state := ''admission_semester''\<rparr>
           \<and> fst (handleSession e userId userMessage s w) = Returned ()
           \<and> outbox (snd (handleSession e userId userMessage s w)) =
               outbox w @ [(userId, ''Which semester are you applying for? (1 or 2).'' @ exit_hint)]"
  by (simp add: grade_step [OF assms] sessions_get_def update_conv')

theorem grade_three_is_stored_as_integer_witness:
  "state session_grade = ''admission_grade'' \<and> \<not> intentDisabled session_grade
   \<and> toLowerCase ''three'' \<noteq> ''exit''
   \<and> validateInput env_accepts_3 ''grade_level'' ''three'' = ''valid 3''
   \<and> sessions_get (snd (handleSession env_accepts_3 demo_user ''three'' session_grade
                           (world_with session_grade))) demo_user =
       Some (new_session ''admission_semester''
               [(''displayname'', JStr ''John Smith''), (''email'', JStr ''john@example.org''),
                (''grade'', JNum 3)])"
proof -
  have h1: "state session_grade = ''admission_grade''" by (simp add: session_grade_def new_session_def)
  have h2: "\<not> intentDisabled session_grade" by (simp add: session_grade_def new_session_def)
  have h3: "toLowerCase ''three'' \<noteq> ''exit''" by (simp add: toLowerCase_def)
  have h4: "validateInput env_accepts_3 ''grade_level'' ''three'' = ''valid 3''"
    by (simp add: env_accepts_3_def)
  from grade_three_is_stored_as_integer [OF h1 h2 h3 h4, of demo_user "world_with session_grade"]
  have "sessions_get (snd (handleSession env_accepts_3 demo_user ''three'' session_grade
                           (world_with session_grade))) demo_user =
       Some (session_grade\<lparr>data := set_prop ''grade'' (JNum 3) (data session_grade),
                           state := ''admission_semester''\<rparr>)"
    by auto
  then have "sessions_get (snd (handleSession env_accepts_3 demo_user ''three'' session_grade
                           (world_with session_grade))) demo_user =
       Some (new_session ''admission_semester''
               [(''displayname'', JStr ''John Smith''), (''email'', JStr ''john@example.org''),
                (''grade'', JNum 3)])"
    by (simp add: session_grade_def new_session_def set_prop_def)
  then show ?thesis using h1 h2 h3 h4 by (intro conjI)
qed

text \<open>
  Claim C6. In each of the five field-collection states, a message that the oracle
  rejects is answered by the oracle's message as it is, followed by the prompt of the
  current state, and leaves the session (its state and the data collected so far) and the
  rest of the world unchanged. This holds for a sequence of rejected messages of any
  length: there is no bound on the number of retries.
\<close>

theorem rejected_field_keeps_session:
  assumes "state s \<in> set [''admission_displayname'', ''admission_email'', ''admission_grade'',
                            ''admission_semester'', ''admission_referral'']"
    and "\<not> intentDisabled s"
    and "sessions_get w userId = Some s"
    and "\<forall>m \<in> set ms. toLowerCase m \<noteq> ''exit'' \<and>
           \<not> isValidValidation (validateInput e (validationType_of_state (state s)) m)"
  shows "\<exists>p. getPromptForState e (state s) (data s) = Returned p
          \<and> handle_messages e userId ms w =
              w\<lparr>outbox := outbox w @
                   concat (map (\<lambda>m. [(userId, validateInput e (validationType_of_state (state s)) m),
                                      (userId, p)]) ms)\<rparr>"
  using assms(3,4)
proof (induction ms arbitrary: w)
  case Nil
  obtain p where "getPromptForState e (state s) (data s) = Returned p"
    using assms(1) by (auto simp: getPromptForState_def)
  then show ?case by simp
next
  case (Cons m ms)
  from Cons.prems have m: "toLowerCase m \<noteq> ''exit''"
      "\<not> isValidValidation (validateInput e (validationType_of_state (state s)) m)"
    and rest: "\<forall>m \<in> set ms. toLowerCase m \<noteq> ''exit'' \<and>
           \<not> isValidValidation (validateInput e (validationType_of_state (state s)) m)"
    by simp_all
  from reject_step [OF assms(1,2) m Cons.prems(1)]
  obtain p where p: "getPromptForState e (state s) (data s) = Returned p"
    and step: "handleSession e userId m s w =
     (Returned (),
      w\<lparr>outbox := outbox w @ [(userId, validateInput e (validationType_of_state (state s)) m), (userId, p)]\<rparr>)"
    by blast
  let ?w1 = "w\<lparr>outbox := outbox w @ [(userId, validateInput e (validationType_of_state (state s)) m), (userId, p)]\<rparr>"
  have stored: "sessions_get ?w1 userId = Some s"
    using Cons.prems(1) by (simp add: sessions_get_def)
  from Cons.IH [OF stored rest] p
  have "handle_messages e userId ms ?w1 =
          ?w1\<lparr>outbox := outbox ?w1 @
                   concat (map (\<lambda>m. [(userId, validateInput e (validationType_of_state (state s)) m),
                                      (userId, p)]) ms)\<rparr>"
    by simp
  then show ?case using p step Cons.prems(1) by simp
qed

theorem rejected_field_keeps_session_witness:
  "state session_grade \<in> set [''admission_displayname'', ''admission_email'', ''admission_grade'',
                            ''admission_semester'', ''admission_referral'']
   \<and> \<not> intentDisabled session_grade
   \<and> sessions_get (world_with session_grade) demo_user = Some session_grade
   \<and> list_all (\<lambda>m. toLowerCase m \<noteq> ''exit'' \<and>
           \<not> isValidValidation (validateInput env0 (validationType_of_state (state session_grade)) m))
         [''banana'', ''grade x'', ''??'']
   \<and> handle_messages env0 demo_user [''banana'', ''grade x'', ''??''] (world_with session_grade) =
       (world_with session_grade)
         \<lparr>outbox :=
            [(demo_user, ''Please try again.''),
             (demo_user, ''For which grade are you applying? (e.g., Grade 3).'' @ exit_hint),
             (demo_user, ''Please try again.''),
             (demo_user, ''For which grade are you applying? (e.g., Grade 3).'' @ exit_hint),
             (demo_user, ''Please try again.''),
             (demo_user, ''For which grade are you applying? (e.g., Grade 3).'' @ exit_hint)]\<rparr>"
proof -
  have h1: "state session_grade \<in> set [''admission_displayname'', ''admission_email'', ''admission_grade'',
                            ''admission_semester'', ''admission_referral'']"
    by (simp add: session_grade_def new_session_def)
  have h2: "\<not> intentDisabled session_grade" by (simp add: session_grade_def new_session_def)
  have h3: "sessions_get (world_with session_grade) demo_user = Some session_grade"
    by (simp add: sessions_get_def world_with_def)
  have h4: "\<forall>m \<in> set [''banana'', ''grade x'', ''??'']. toLowerCase m \<noteq> ''exit'' \<and>
           \<not> isValidValidation (validateInput env0 (validationType_of_state (state session_grade)) m)"
    by (simp add: env0_def isValidValidation_def string_eval)
  from rejected_field_keeps_session [OF h1 h2 h3 h4]
  have "handle_messages env0 demo_user [''banana'', ''grade x'', ''??''] (world_with session_grade) =
       (world_with session_grade)
         \<lparr>outbox :=
            [(demo_user, ''Please try again.''),
             (demo_user, ''For which grade are you applying? (e.g., Grade 3).'' @ exit_hint),
             (demo_user, ''Please try again.''),
             (demo_user, ''For which grade are you applying? (e.g., Grade 3).'' @ exit_hint),
             (demo_user, ''Please try again.''),
             (demo_user, ''For which grade are you applying? (e.g., Grade 3).'' @ exit_hint)]\<rparr>"
    by (auto simp: session_grade_def new_session_def getPromptForState_def env0_def
        validationType_of_state_def world_with_def world0_def)
  moreover have "list_all (\<lambda>m. toLowerCase m \<noteq> ''exit'' \<and>
           \<not> isValidValidation (validateInput env0 (validationType_of_state (state session_grade)) m))
         [''banana'', ''grade x'', ''??'']"
    using h4 by (simp add: list_all_iff)
  ultimately show ?thesis using h1 h2 h3 by (intro conjI)
qed

section \<open>The sanitizer and the stored fields\<close>




section \<open>The booking transaction\<close>

text \<open>
  Claim C2, as stated, fails in its last part: \<^verbatim>\<open>pool.getConnection()\<close> stands outside
  the \<^verbatim>\<open>try\<close> block, so with the database unreachable \<^verbatim>\<open>saveAppointment\<close> ends by an
  exception and returns no boolean.
\<close>

theorem saveAppointment_throws_without_connection:
  "saveAppointment env_db_down (JNum 7) (Some monday_9) ''Admission Inquiry'' ''Admission'' (JNum 3)
     world0 = (Thrown, world0\<lparr>db_ops := 1\<rparr>)"
  by (simp add: saveAppointment_def db_request_def env_db_down_def env0_def world0_def)

text \<open>
  Claim C2, amended. When the database accepts every request of the call: if some
  appointment row has its \<^verbatim>\<open>appdate\<close> within one second of the slot time (to the second),
  the call returns false and inserts nothing; otherwise it takes the largest existing
  appointment id plus one as the new id, appends exactly one row at the slot time and
  returns true. Whatever the database does, a call that does not return true leaves every
  table as it was. A rejected \<^verbatim>\<open>getConnection\<close> reaches the caller as an exception; with
  the connection acquired, and no request rejected right after a rejected one (the
  rollback of the \<^verbatim>\<open>catch\<close> block succeeds), the call returns a boolean.
\<close>

theorem saveAppointment_outcomes:
  "((\<forall>n. \<not> db_fail e n) \<longrightarrow>
      saveAppointment e studentId (Some t) purpose type forgrade w =
        (if list_ex (\<lambda>a. \<bar>ap_appdate a - t div 1000\<bar> \<le> 1) (appointments w)
         then (Returned False, w\<lparr>db_ops := db_ops w + 4\<rparr>)
         else (Returned True,
               w\<lparr>db_ops := db_ops w + 6,
                  appointments := appointments w @
                    [new_appointment (next_id (map ap_id (appointments w))) studentId (t div 1000)
                       purpose type forgrade]\<rparr>)))
   \<and> (appointments w \<noteq> [] \<longrightarrow>
        next_id (map ap_id (appointments w)) = Max (ap_id ` set (appointments w)) + 1)
   \<and> (fst (saveAppointment e studentId d purpose type forgrade w) \<noteq> Returned True \<longrightarrow>
        (snd (saveAppointment e studentId d purpose type forgrade w))\<lparr>db_ops := db_ops w\<rparr> = w)
   \<and> (db_fail e (db_ops w) \<longrightarrow>
        fst (saveAppointment e studentId d purpose type forgrade w) = Thrown)
   \<and> (\<not> db_fail e (db_ops w) \<and> (\<forall>n. db_fail e n \<longrightarrow> \<not> db_fail e (Suc n)) \<longrightarrow>
        (\<exists>b. fst (saveAppointment e studentId (Some t) purpose type forgrade w) = Returned b))"
  using saveAppointment_accepted [of e studentId t purpose type forgrade w]
    next_id_max(1) [of "map ap_id (appointments w)"]
    saveAppointment_keeps [of e studentId d purpose type forgrade w]
    saveAppointment_no_connection [of e w studentId d purpose type forgrade]
    saveAppointment_returns [of e w studentId t purpose type forgrade]
  by simp

theorem saveAppointment_outcomes_witness:
  "(\<forall>n. \<not> db_fail env0 n)
   \<and> saveAppointment env0 (JNum 7) (Some monday_9) ''Admission Inquiry'' ''Admission'' (JNum 3)
       world_booked = (Returned False, world_booked\<lparr>db_ops := 4\<rparr>)
   \<and> saveAppointment env0 (JNum 7) (Some (monday_9 + 1800000)) ''Admission Inquiry'' ''Admission''
       (JNum 3) world_booked =
       (Returned True,
        world_booked\<lparr>db_ops := 6,
          appointments :=
            [booked_monday_9,
             \<lparr>ap_id = 6, ap_student_id = Some 7, ap_appdate = 379800, ap_time = 379800,
              ap_purpose = ''Admission Inquiry'', ap_host = ''IvyBot'', ap_type = ''Admission'',
              ap_forgrade = Some 3\<rparr>]\<rparr>)
   \<and> appointments world_booked \<noteq> []
   \<and> next_id (map ap_id (appointments world_booked)) = 6
   \<and> fst (saveAppointment env_insert_rejected (JNum 7) (Some (monday_9 + 1800000))
             ''Admission Inquiry'' ''Admission'' (JNum 3) world_booked) = Returned False
   \<and> (snd (saveAppointment env_insert_rejected (JNum 7) (Some (monday_9 + 1800000))
             ''Admission Inquiry'' ''Admission'' (JNum 3) world_booked))\<lparr>db_ops := db_ops world_booked\<rparr>
       = world_booked
   \<and> db_fail env_db_down (db_ops world_booked)
   \<and> fst (saveAppointment env_db_down (JNum 7) (Some monday_9) ''Admission Inquiry'' ''Admission''
             (JNum 3) world_booked) = Thrown
   \<and> \<not> db_fail env_insert_rejected (db_ops world_booked)
   \<and> \<not> (\<exists>n. db_fail env_insert_rejected n \<and> db_fail env_insert_rejected (Suc n))"
proof -
  have ok: "\<forall>n. \<not> db_fail env0 n" by (simp add: env0_def)
  have ne: "appointments world_booked \<noteq> []" by (simp add: world_booked_def)
  have down: "db_fail env_db_down (db_ops world_booked)" by (simp add: env_db_down_def)
  have rej: "\<not> db_fail env_insert_rejected (db_ops world_booked)"
    "\<forall>n. db_fail env_insert_rejected n \<longrightarrow> \<not> db_fail env_insert_rejected (Suc n)"
    by (simp_all add: env_insert_rejected_def world_booked_def world0_def)
  note conflict = saveAppointment_outcomes
      [where e = env0 and w = world_booked and t = monday_9 and studentId = "JNum 7"
         and purpose = "''Admission Inquiry''" and type = "''Admission''" and forgrade = "JNum 3",
       THEN conjunct1, THEN mp, OF ok]
  note free = saveAppointment_outcomes
      [where e = env0 and w = world_booked and t = "monday_9 + 1800000" and studentId = "JNum 7"
         and purpose = "''Admission Inquiry''" and type = "''Admission''" and forgrade = "JNum 3",
       THEN conjunct1, THEN mp, OF ok]
  note ident = saveAppointment_outcomes
      [where w = world_booked, THEN conjunct2, THEN conjunct1, THEN mp, OF ne]
  note rest = saveAppointment_outcomes
      [where e = env_insert_rejected and w = world_booked and t = "monday_9 + 1800000"
         and d = "Some (monday_9 + 1800000)" and studentId = "JNum 7"
         and purpose = "''Admission Inquiry''" and type = "''Admission''" and forgrade = "JNum 3",
       THEN conjunct2, THEN conjunct2]
  note thrown = saveAppointment_outcomes
      [where e = env_db_down and w = world_booked and d = "Some monday_9" and studentId = "JNum 7"
         and purpose = "''Admission Inquiry''" and type = "''Admission''" and forgrade = "JNum 3",
       THEN conjunct2, THEN conjunct2, THEN conjunct2, THEN conjunct1, THEN mp, OF down]
  have c1: "saveAppointment env0 (JNum 7) (Some monday_9) ''Admission Inquiry'' ''Admission'' (JNum 3)
       world_booked = (Returned False, world_booked\<lparr>db_ops := 4\<rparr>)"
    using conflict by (simp add: world_booked_def world0_def booked_monday_9_def monday_9_def)
  have c3: "next_id (map ap_id (appointments world_booked)) = 6"
    using ident by (simp add: world_booked_def booked_monday_9_def)
  have c2: "saveAppointment env0 (JNum 7) (Some (monday_9 + 1800000)) ''Admission Inquiry'' ''Admission''
       (JNum 3) world_booked =
       (Returned True,
        world_booked\<lparr>db_ops := 6,
          appointments :=
            [booked_monday_9,
             \<lparr>ap_id = 6, ap_student_id = Some 7, ap_appdate = 379800, ap_time = 379800,
              ap_purpose = ''Admission Inquiry'', ap_host = ''IvyBot'', ap_type = ''Admission'',
              ap_forgrade = Some 3\<rparr>]\<rparr>)"
    using free
    by (simp add: c3 new_appointment_def sql_int_def)
       (simp add: world_booked_def world0_def booked_monday_9_def monday_9_def)
  obtain b where b: "fst (saveAppointment env_insert_rejected (JNum 7) (Some (monday_9 + 1800000))
             ''Admission Inquiry'' ''Admission'' (JNum 3) world_booked) = Returned b"
    using rest rej by blast
  have c4: "fst (saveAppointment env_insert_rejected (JNum 7) (Some (monday_9 + 1800000))
             ''Admission Inquiry'' ''Admission'' (JNum 3) world_booked) = Returned False"
    by (simp add: saveAppointment_def save_insert_def save_catch_def db_request_def
        formatDateTimeMySql_def Let_def env_insert_rejected_def env0_def world_booked_def world0_def
        window_count_def booked_monday_9_def monday_9_def)
  have c5: "(snd (saveAppointment env_insert_rejected (JNum 7) (Some (monday_9 + 1800000))
             ''Admission Inquiry'' ''Admission'' (JNum 3) world_booked))\<lparr>db_ops := db_ops world_booked\<rparr>
       = world_booked"
    using rest c4 by simp
  have rej': "\<not> (\<exists>n. db_fail env_insert_rejected n \<and> db_fail env_insert_rejected (Suc n))"
    using rej(2) by blast
  show ?thesis by (intro conjI ok c1 c2 ne c3 c4 c5 down thrown rej(1) rej')
qed

section \<open>Replacing an appointment\<close>

text \<open>
  Claim C9 against the code. The session holds the pending slot as the \<^verbatim>\<open>Date\<close> that
  \<^verbatim>\<open>meeting_show_slots\<close> stored (Monday 09:00, a free slot that a direct call of
  \<^verbatim>\<open>saveAppointment\<close> books). On the answer "yes" the handler reads the properties
  \<^verbatim>\<open>slot_date\<close> and \<^verbatim>\<open>slot_time\<close> of that \<^verbatim>\<open>Date\<close>, builds an Invalid Date from the text
  \<^verbatim>\<open>undefined undefined\<close> and passes it to \<^verbatim>\<open>saveAppointment\<close>: no row is inserted, the
  user is told that the replacement failed and the session is deleted.
\<close>

theorem confirm_replace_does_not_book_pending_slot:
  "get_prop (data session_replace) ''pendingSlot'' = JDate (Some monday_9)
   \<and> fst (saveAppointment env0 (JNum 7) (Some monday_9) ''Admission Inquiry'' ''Admission'' (JNum 3)
            (world_with session_replace)) = Returned True
   \<and> handleSession env0 demo_user ''yes'' session_replace (world_with session_replace) =
       (Returned (),
        world0\<lparr>db_ops := 4,
          outbox := [(demo_user,
            ''Sorry, there was a problem replacing your appointment. The slot might have been taken. Please try scheduling again.'')]\<rparr>)"
proof -
  have a: "get_prop (data session_replace) ''pendingSlot'' = JDate (Some monday_9)"
    by (simp add: session_replace_def new_session_def get_prop_def)
  have b: "fst (saveAppointment env0 (JNum 7) (Some monday_9) ''Admission Inquiry'' ''Admission'' (JNum 3)
            (world_with session_replace)) = Returned True"
    by (simp add: saveAppointment_accepted env0_def world_with_def world0_def)
  have c: "handleSession env0 demo_user ''yes'' session_replace (world_with session_replace) =
       (Returned (),
        world0\<lparr>db_ops := 4,
          outbox := [(demo_user,
            ''Sorry, there was a problem replacing your appointment. The slot might have been taken. Please try scheduling again.'')]\<rparr>)"
    apply (simp add: handleSession_def session_replace_def new_session_def toLowerCase_def)
    apply (simp add: confirm_replace_appointment_def yes_is_yes Let_def toLowerCase_def lower_char_def
        get_prop_def js_member_def js_String_def Date_parse_def is_digit_def)
    apply (simp add: saveAppointment_def save_catch_def db_request_def formatDateTimeMySql_def
        env0_def world_with_def world0_def finished_def sendMessage_def sessions_delete_def
        demo_user_def)
    done
  show ?thesis by (intro conjI a b c)
qed

section \<open>The window of the slot list\<close>

text \<open>
  Claim C3 against the code. On Thursday 1970-01-01, 00:00, with no appointment booked
  and the database accepting every request, the three-day window that starts tomorrow
  is Friday, Saturday and Sunday, and the list of the specification holds the 14 slots of
  Sunday. \<^verbatim>\<open>getAvailableSlots\<close> returns 28 slots: its loop runs while the day is before
  the end of the day three days after tomorrow, which is a fourth day, and the slots of
  Monday are in the list.
\<close>

theorem getAvailableSlots_covers_four_days:
  "getDay (now world0) = 4
   \<and> fst (getAvailableSlots env0 ''Grade 4'' world0) =
       day_candidates (3 * ms_per_day) @ day_candidates (4 * ms_per_day)
   \<and> spec_available_slots world0 = day_candidates (3 * ms_per_day)
   \<and> length (fst (getAvailableSlots env0 ''Grade 4'' world0)) = 28
   \<and> length (spec_available_slots world0) = 14
   \<and> list_ex (\<lambda>c. c = 4 * ms_per_day + 8 * 3600000) (fst (getAvailableSlots env0 ''Grade 4'' world0))"
proof -
  have ok: "\<forall>n. \<not> db_fail env0 n" by (simp add: env0_def)
  have thu: "getDay (now world0) = 4" by (simp add: getDay_def world0_def ms_per_day_def)
  have tomorrow: "start_of_day (now world0 + ms_per_day) = ms_per_day"
    by (simp add: start_of_day_def world0_def ms_per_day_def)
  have days: "\<not> getDay ms_per_day \<le> 4" "\<not> getDay (2 * ms_per_day) \<le> 4"
    "getDay (3 * ms_per_day) \<le> 4" "getDay (4 * ms_per_day) \<le> 4"
    by (simp_all add: getDay_def ms_per_day_def)
  have free: "appointments world0 = []" by (simp add: world0_def)
  have code: "fst (getAvailableSlots env0 ''Grade 4'' world0) =
       day_candidates (3 * ms_per_day) @ day_candidates (4 * ms_per_day)"
    by (simp add: getAvailableSlots_accepted [OF ok] tomorrow days free)
  have after: "list_all (\<lambda>c. now world0 < c) (day_candidates (3 * ms_per_day))"
    by (simp add: day_candidates_def start_of_day_def ms_per_day_def world0_def)
  have spec: "spec_available_slots world0 = day_candidates (3 * ms_per_day)"
    using after
    by (simp add: spec_available_slots_def tomorrow days free Let_def filter_id_conv list_all_iff)
  have n: "length (day_candidates d) = 14" for d by (simp add: day_candidates_def)
  have monday: "list_ex (\<lambda>c. c = 4 * ms_per_day + 8 * 3600000)
                  (fst (getAvailableSlots env0 ''Grade 4'' world0))"
    by (simp add: code day_candidates_def start_of_day_def ms_per_day_def)
  show ?thesis by (intro conjI thu code spec monday) (simp_all add: code spec n)
qed

section \<open>Questions during the confirmation step\<close>

text \<open>
  Claim C8, as stated, fails: \<^verbatim>\<open>admission_confirm\<close> has a \<^verbatim>\<open>case\<close> of its own, so a
  message classified as a question is read there as an answer to the yes/no question.
  Nothing is saved in \<^verbatim>\<open>previousState\<close>, the state stays \<^verbatim>\<open>admission_confirm\<close> and the
  user is asked again.
\<close>

theorem question_during_admission_confirm_is_no_interrupt:
  "determineIntent env_question ''What are the fees?'' (state session_confirm) = ''AskFAQ''
   \<and> state session_confirm = ''admission_confirm''
   \<and> previousState session_confirm = None
   \<and> sessions_get (world_with session_confirm) demo_user = Some session_confirm
   \<and> handleSession env_question demo_user ''What are the fees?'' session_confirm
         (world_with session_confirm) =
       (Returned (),
        (world_with session_confirm)
          \<lparr>outbox := [(demo_user, ''I did not understand. Are all details correct? (Yes/No)'')]\<rparr>)"
proof -
  have a: "determineIntent env_question ''What are the fees?'' (state session_confirm) = ''AskFAQ''"
    by (simp add: env_question_def)
  have b: "state session_confirm = ''admission_confirm''"
    and c: "previousState session_confirm = None"
    and ni: "\<not> intentDisabled session_confirm"
    by (simp_all add: session_confirm_def new_session_def)
  have d: "sessions_get (world_with session_confirm) demo_user = Some session_confirm"
    by (simp add: sessions_get_def world_with_def)
  have ne: "toLowerCase ''What are the fees?'' \<noteq> ''exit''" by (simp add: toLowerCase_def)
  have yn: "interpretYesNo env_question ''What are the fees?'' = ''unknown''"
    by (simp add: interpretYesNo_def string_eval is_word_char_def Let_def env_question_def env0_def)
  have e: "handleSession env_question demo_user ''What are the fees?'' session_confirm
         (world_with session_confirm) =
       (Returned (),
        (world_with session_confirm)
          \<lparr>outbox := [(demo_user, ''I did not understand. Are all details correct? (Yes/No)'')]\<rparr>)"
    by (simp add: handleSession_admission_confirm [OF b ni ne] admission_confirm_def yn Let_def
        toLowerCase_def lower_char_def finished_def sendMessage_def world_with_def world0_def)
  show ?thesis by (intro conjI a b c d e)
qed

text \<open>
  Claim C8, amended. In state \<^verbatim>\<open>admission_confirm\<close> the intent classification plays no
  part: the result is the same for every intent oracle, \<^verbatim>\<open>previousState\<close> and
  \<^verbatim>\<open>intentDisabled\<close> of the session stay as they were, and the state afterwards is
  \<^verbatim>\<open>admission_confirm\<close>, \<^verbatim>\<open>meeting_offer\<close> or \<^verbatim>\<open>admission_choose_detail_to_change\<close>
  (unless the session is deleted). The interrupt exists for a session whose state has no
  \<^verbatim>\<open>case\<close> label: a question saves the state in \<^verbatim>\<open>previousState\<close>, forces
  \<^verbatim>\<open>awaiting_continue\<close> and is answered. A later message in \<^verbatim>\<open>awaiting_continue\<close> that is
  neither a question nor about admission gets the reply for other intents, which deletes
  the session or leaves it as it is; \<^verbatim>\<open>intentDisabled\<close> is not set.
\<close>

theorem admission_confirm_has_no_interrupt:
  "(state s = ''admission_confirm'' \<and> \<not> intentDisabled s \<and> toLowerCase userMessage \<noteq> ''exit''
      \<and> sessions_get w userId = Some s \<longrightarrow>
      handleSession (e\<lparr>determineIntent := f\<rparr>) userId userMessage s w =
        handleSession e userId userMessage s w
      \<and> (case sessions_get (snd (handleSession e userId userMessage s w)) userId of
            None \<Rightarrow> True
          | Some s' \<Rightarrow>
              previousState s' = previousState s \<and> intentDisabled s' = intentDisabled s
              \<and> (state s' = ''admission_confirm'' \<or> state s' = ''meeting_offer''
                   \<or> state s' = ''admission_choose_detail_to_change'')))
   \<and> (state s \<notin> set case_labels \<and> state s \<noteq> [] \<and> \<not> intentDisabled s
        \<and> toLowerCase userMessage \<noteq> ''exit''
        \<and> determineIntent e userMessage (state s) = ''AskFAQ'' \<longrightarrow>
        handleSession e userId userMessage s w =
          (Returned (),
           w\<lparr>sessions := AList.update userId
                  (s\<lparr>previousState := Some (state s), state := ''awaiting_continue''\<rparr>)
                  (sessions w),
             outbox := outbox w @
               [(userId, answer_text e userMessage), (userId, ''How can I help you today?'')]\<rparr>))
   \<and> (state s = ''awaiting_continue'' \<and> \<not> intentDisabled s \<and> toLowerCase userMessage \<noteq> ''exit''
        \<and> determineIntent e userMessage (state s) \<noteq> ''AskFAQ''
        \<and> determineIntent e userMessage (state s) \<noteq> ''AdmissionFlow''
        \<and> sessions_get w userId = Some s \<longrightarrow>
        handleSession e userId userMessage s w = other_intent e userId w
        \<and> (sessions_get (snd (handleSession e userId userMessage s w)) userId = None
            \<or> sessions_get (snd (handleSession e userId userMessage s w)) userId = Some s))"
proof (intro conjI impI)
  assume h: "state s = ''admission_confirm'' \<and> \<not> intentDisabled s
      \<and> toLowerCase userMessage \<noteq> ''exit'' \<and> sessions_get w userId = Some s"
  then have st: "state s = ''admission_confirm''" and ni: "\<not> intentDisabled s"
    and ne: "toLowerCase userMessage \<noteq> ''exit''" and stored: "sessions_get w userId = Some s"
    by simp_all
  show "handleSession (e\<lparr>determineIntent := f\<rparr>) userId userMessage s w =
        handleSession e userId userMessage s w"
    by (simp only: handleSession_admission_confirm [OF st ni ne] admission_confirm_ignores_intent)
  show "case sessions_get (snd (handleSession e userId userMessage s w)) userId of
            None \<Rightarrow> True
          | Some s' \<Rightarrow>
              previousState s' = previousState s \<and> intentDisabled s' = intentDisabled s
              \<and> (state s' = ''admission_confirm'' \<or> state s' = ''meeting_offer''
                   \<or> state s' = ''admission_choose_detail_to_change'')"
    using admission_confirm_result [OF stored, of e userMessage, unfolded st]
    by (simp only: handleSession_admission_confirm [OF st ni ne])
next
  assume h: "state s \<notin> set case_labels \<and> state s \<noteq> [] \<and> \<not> intentDisabled s
        \<and> toLowerCase userMessage \<noteq> ''exit''
        \<and> determineIntent e userMessage (state s) = ''AskFAQ''"
  then show "handleSession e userId userMessage s w =
          (Returned (),
           w\<lparr>sessions := AList.update userId
                  (s\<lparr>previousState := Some (state s), state := ''awaiting_continue''\<rparr>)
                  (sessions w),
             outbox := outbox w @
               [(userId, answer_text e userMessage), (userId, ''How can I help you today?'')]\<rparr>)"
    by (simp add: handleSession_default default_state_question)
next
  assume h: "state s = ''awaiting_continue'' \<and> \<not> intentDisabled s \<and> toLowerCase userMessage \<noteq> ''exit''
        \<and> determineIntent e userMessage (state s) \<noteq> ''AskFAQ''
        \<and> determineIntent e userMessage (state s) \<noteq> ''AdmissionFlow''
        \<and> sessions_get w userId = Some s"
  then have st: "state s = ''awaiting_continue''" and ni: "\<not> intentDisabled s"
    and ne: "toLowerCase userMessage \<noteq> ''exit''"
    and i1: "determineIntent e userMessage (state s) \<noteq> ''AskFAQ''"
    and i2: "determineIntent e userMessage (state s) \<noteq> ''AdmissionFlow''"
    by blast+
  have eq: "handleSession e userId userMessage s w = other_intent e userId w"
    by (simp only: handleSession_awaiting_continue [OF st ni ne] awaiting_continue_other [OF i1 i2])
  then show "handleSession e userId userMessage s w = other_intent e userId w" .
  show "sessions_get (snd (handleSession e userId userMessage s w)) userId = None
            \<or> sessions_get (snd (handleSession e userId userMessage s w)) userId = Some s"
    using sessions_get_other_intent [of e userId w] h by (simp add: eq)
qed


theorem admission_confirm_has_no_interrupt_witness:
  "state session_confirm = ''admission_confirm'' \<and> \<not> intentDisabled session_confirm
   \<and> toLowerCase ''What are the fees?'' \<noteq> ''exit''
   \<and> sessions_get (world_with session_confirm) demo_user = Some session_confirm
   \<and> handleSession env_question demo_user ''What are the fees?'' session_confirm
         (world_with session_confirm) =
       handleSession env0 demo_user ''What are the fees?'' session_confirm
         (world_with session_confirm)
   \<and> state session_unlisted \<notin> set case_labels \<and> state session_unlisted \<noteq> []
   \<and> \<not> intentDisabled session_unlisted
   \<and> determineIntent env_question ''What are the fees?'' (state session_unlisted) = ''AskFAQ''
   \<and> handleSession env_question demo_user ''What are the fees?'' session_unlisted
         (world_with session_unlisted) =
       (Returned (),
        world0\<lparr>sessions :=
                 [(demo_user,
                   session_unlisted\<lparr>previousState := Some ''admission_change_or_cancel'',
                                      state := ''awaiting_continue''\<rparr>)],
               outbox := [(demo_user, ''The school day starts at 8.''),
                          (demo_user, ''How can I help you today?'')]\<rparr>)
   \<and> determineIntent env0 ''thanks'' ''awaiting_continue'' \<noteq> ''AskFAQ''
   \<and> determineIntent env0 ''thanks'' ''awaiting_continue'' \<noteq> ''AdmissionFlow''
   \<and> handleSession env0 demo_user ''thanks''
         (session_unlisted\<lparr>previousState := Some ''admission_change_or_cancel'',
                            state := ''awaiting_continue''\<rparr>)
         (world_with (session_unlisted\<lparr>previousState := Some ''admission_change_or_cancel'',
                                        state := ''awaiting_continue''\<rparr>)) =
       other_intent env0 demo_user
         (world_with (session_unlisted\<lparr>previousState := Some ''admission_change_or_cancel'',
                                        state := ''awaiting_continue''\<rparr>))"
proof -
  let ?q = "''What are the fees?''"
  let ?s2 = "session_unlisted\<lparr>previousState := Some ''admission_change_or_cancel'',
                             state := ''awaiting_continue''\<rparr>"
  have a1: "state session_confirm = ''admission_confirm''"
    and a2: "\<not> intentDisabled session_confirm"
    by (simp_all add: session_confirm_def new_session_def)
  have a3: "toLowerCase ?q \<noteq> ''exit''" by (simp add: toLowerCase_def)
  have a4: "sessions_get (world_with session_confirm) demo_user = Some session_confirm"
    by (simp add: sessions_get_def world_with_def)
  have envq: "env0\<lparr>determineIntent := (\<lambda>userMessage conversation. ''AskFAQ'')\<rparr> = env_question"
    by (simp add: env_question_def)
  note part1 = admission_confirm_has_no_interrupt
      [where s = session_confirm and userMessage = ?q and w = "world_with session_confirm"
         and userId = demo_user and e = env0 and f = "\<lambda>userMessage conversation. ''AskFAQ''",
       THEN conjunct1, THEN mp, OF conjI [OF a1 conjI [OF a2 conjI [OF a3 a4]]],
       THEN conjunct1, unfolded envq]
  have b1: "state session_unlisted \<notin> set case_labels" and b2: "state session_unlisted \<noteq> []"
    and b3: "\<not> intentDisabled session_unlisted"
    by (simp_all add: session_unlisted_def new_session_def case_labels_def)
  have b4: "determineIntent env_question ?q (state session_unlisted) = ''AskFAQ''"
    by (simp add: env_question_def)
  note part2 = admission_confirm_has_no_interrupt
      [where s = session_unlisted and userMessage = ?q and w = "world_with session_unlisted"
         and userId = demo_user and e = env_question,
       THEN conjunct2, THEN conjunct1, THEN mp,
       OF conjI [OF b1 conjI [OF b2 conjI [OF b3 conjI [OF a3 b4]]]]]
  have b5: "handleSession env_question demo_user ?q session_unlisted (world_with session_unlisted) =
       (Returned (),
        world0\<lparr>sessions := [(demo_user, ?s2)],
               outbox := [(demo_user, ''The school day starts at 8.''),
                          (demo_user, ''How can I help you today?'')]\<rparr>)"
    by (simp add: part2)
       (simp add: world_with_def world0_def session_unlisted_def new_session_def answer_text_def
          env_question_def env0_def)
  have c0: "state ?s2 = ''awaiting_continue''" "\<not> intentDisabled ?s2"
    "toLowerCase ''thanks'' \<noteq> ''exit''"
    by (simp_all add: session_unlisted_def new_session_def toLowerCase_def)
  have c1: "determineIntent env0 ''thanks'' ''awaiting_continue'' \<noteq> ''AskFAQ''"
    and c2: "determineIntent env0 ''thanks'' ''awaiting_continue'' \<noteq> ''AdmissionFlow''"
    by (simp_all add: env0_def)
  have c3: "sessions_get (world_with ?s2) demo_user = Some ?s2"
    by (simp add: sessions_get_def world_with_def)
  have c12: "determineIntent env0 ''thanks'' (state ?s2) \<noteq> ''AskFAQ''"
    "determineIntent env0 ''thanks'' (state ?s2) \<noteq> ''AdmissionFlow''"
    by (simp_all add: env0_def)
  note part3 = admission_confirm_has_no_interrupt
      [where s = ?s2 and userMessage = "''thanks''" and w = "world_with ?s2"
         and userId = demo_user and e = env0,
       THEN conjunct2, THEN conjunct2, THEN mp,
       OF conjI [OF c0(1) conjI [OF c0(2) conjI [OF c0(3) conjI [OF c12(1) conjI [OF c12(2) c3]]]]],
       THEN conjunct1]
  show ?thesis by (intro conjI a1 a2 a3 a4 part1 b1 b2 b3 b4 b5 c1 c2 part3)
qed

end
